theory Spec2Isabelle
  imports Complex_Main "HOL-Library.Word"
begin

unbundle bit_operations_syntax

section \<open>Python values, exceptions and containers\<close>

text \<open>
  The driver is Python. Its floats are modelled as \<open>real\<close> (exact arithmetic, no NaN,
  no rounding), its integers as \<open>int\<close>, its \<open>bytes\<close> as lists of 8-bit words, its
  \<open>str\<close> as \<open>string\<close>, and its dictionaries with string keys as maps. Every exception
  the modelled code can raise is a value of \<open>exn\<close>; a function that can raise returns
  \<open>exn + 'a\<close>.
\<close>

type_synonym byte = "8 word"

datatype exn =
    ValueError string
  | KeyError string
  | TypeError string
  | NameError string
  | ZeroDivisionError string
  | OverflowError string
  | Exception string
  | BinasciiError string
  | TransportError string

definition bindE :: "exn + 'a \<Rightarrow> ('a \<Rightarrow> exn + 'b) \<Rightarrow> exn + 'b" where
  "bindE m f = (case m of Inl e \<Rightarrow> Inl e | Inr v \<Rightarrow> f v)"

text \<open>\<open>d[k]\<close> on a dictionary: KeyError when the key is absent.\<close>

definition getitem :: "(string \<rightharpoonup> 'v) \<Rightarrow> string \<Rightarrow> exn + 'v" where
  "getitem d k = (case d k of None \<Rightarrow> Inl (KeyError k) | Some v \<Rightarrow> Inr v)"

text \<open>
  \<open>xs[start:stop]\<close>: a negative index counts from the end, and both ends are clamped
  to the sequence; slicing never raises.
\<close>

definition slice_index :: "int \<Rightarrow> nat \<Rightarrow> nat" where
  "slice_index i n = (if i < 0 then nat (max (i + int n) 0) else min (nat i) n)"

definition py_slice :: "int \<Rightarrow> int \<Rightarrow> 'a list \<Rightarrow> 'a list" where
  "py_slice start stop xs =
     (let a = slice_index start (length xs); b = slice_index stop (length xs)
      in take (b - a) (drop a xs))"

subsection \<open>Numbers\<close>

text \<open>
  A number of a preamble is a Python \<open>int\<close> or a Python \<open>float\<close>: the preamble decoder
  produces floats, \<open>json.loads\<close> produces an int for a literal without fraction or
  exponent and a float otherwise. The two are kept apart, since the arithmetic of the
  constructor differs on them.
\<close>

datatype pynum = PInt int | PFloat real

text \<open>\<open>x != 0\<close>.\<close>

definition py_nonzero :: "pynum \<Rightarrow> bool" where
  "py_nonzero x = (case x of PInt i \<Rightarrow> i \<noteq> 0 | PFloat r \<Rightarrow> r \<noteq> 0)"

text \<open>
  The conversion of an int to a float, which Python applies to the int operand of a mixed
  operation: OverflowError when the int rounds to a magnitude beyond the largest double.
\<close>

definition float_of_int :: "int \<Rightarrow> exn + real" where
  "float_of_int i =
     (if \<bar>i\<bar> \<ge> 2 ^ 1024 - 2 ^ 970
      then Inl (OverflowError ''int too large to convert to float'')
      else Inr (real_of_int i))"

text \<open>\<open>a - b\<close> on Python numbers: exact on two ints, float arithmetic otherwise.\<close>

fun py_sub :: "pynum \<Rightarrow> pynum \<Rightarrow> exn + pynum" where
  "py_sub (PInt i) (PInt j) = Inr (PInt (i - j))"
| "py_sub (PInt i) (PFloat r) = bindE (float_of_int i) (\<lambda>x. Inr (PFloat (x - r)))"
| "py_sub (PFloat r) (PInt j) = bindE (float_of_int j) (\<lambda>x. Inr (PFloat (r - x)))"
| "py_sub (PFloat r) (PFloat q) = Inr (PFloat (r - q))"

text \<open>
  \<open>a / b\<close> for a float \<open>a\<close>, as in \<open>1.0/dx\<close>: an int \<open>b\<close> is converted first, and a zero
  divisor raises ZeroDivisionError.
\<close>

definition py_truediv :: "real \<Rightarrow> pynum \<Rightarrow> exn + real" where
  "py_truediv a b =
     bindE (case b of PInt i \<Rightarrow> float_of_int i | PFloat r \<Rightarrow> Inr r) (\<lambda>x.
       if x = 0 then Inl (ZeroDivisionError ''float division by zero'') else Inr (a / x))"

subsection \<open>NumPy arrays\<close>

text \<open>
  The arrays of the constructor have one of three element types: unsigned 8-bit (the
  samples), signed 64-bit (\<open>np.arange\<close>) and double. A 64-bit element is kept as the
  integer it stands for, and \<open>wrap_int64\<close> is the wrap-around of its arithmetic.
\<close>

datatype ndarray = U8 "byte list" | I64 "int list" | F64 "real list"

definition wrap_int64 :: "int \<Rightarrow> int" where
  "wrap_int64 x = (x + 2 ^ 63) mod 2 ^ 64 - 2 ^ 63"

fun as_float64 :: "ndarray \<Rightarrow> real list" where
  "as_float64 (U8 bs) = map (\<lambda>b. real (unat b)) bs"
| "as_float64 (I64 xs) = map real_of_int xs"
| "as_float64 (F64 xs) = xs"

text \<open>\<open>np.frombuffer(buf, dtype="B")\<close>: the bytes as an array of unsigned 8-bit samples.\<close>

definition np_frombuffer_B :: "byte list \<Rightarrow> byte list" where
  "np_frombuffer_B buf = buf"

text \<open>\<open>np.arange(n)\<close>: the integers below \<open>n\<close>, as 64-bit elements.\<close>

definition np_arange :: "nat \<Rightarrow> ndarray" where
  "np_arange n = I64 (map int [0..<n])"

text \<open>
  A Python number combined with an array, by the promotion rules of NumPy 2. A float
  makes the result a double array. An int takes the element type of the array: it must
  be representable in that type, or the operation raises OverflowError whatever the
  array holds, and the arithmetic of an integer type wraps around silently; with a
  double array the int is converted to a float.
\<close>

fun np_add :: "pynum \<Rightarrow> ndarray \<Rightarrow> exn + ndarray" where
  "np_add (PFloat r) a = Inr (F64 (map (\<lambda>x. r + x) (as_float64 a)))"
| "np_add (PInt k) (U8 bs) =
     (if 0 \<le> k \<and> k \<le> 255 then Inr (U8 (map (\<lambda>b. word_of_int k + b) bs))
      else Inl (OverflowError ''Python integer out of bounds for uint8''))"
| "np_add (PInt k) (I64 xs) =
     (if - (2 ^ 63) \<le> k \<and> k < 2 ^ 63 then Inr (I64 (map (\<lambda>x. wrap_int64 (k + x)) xs))
      else Inl (OverflowError ''Python integer out of bounds for int64''))"
| "np_add (PInt k) (F64 xs) =
     bindE (float_of_int k) (\<lambda>r. Inr (F64 (map (\<lambda>x. r + x) xs)))"

fun np_mul :: "pynum \<Rightarrow> ndarray \<Rightarrow> exn + ndarray" where
  "np_mul (PFloat r) a = Inr (F64 (map (\<lambda>x. r * x) (as_float64 a)))"
| "np_mul (PInt k) (U8 bs) =
     (if 0 \<le> k \<and> k \<le> 255 then Inr (U8 (map (\<lambda>b. word_of_int k * b) bs))
      else Inl (OverflowError ''Python integer out of bounds for uint8''))"
| "np_mul (PInt k) (I64 xs) =
     (if - (2 ^ 63) \<le> k \<and> k < 2 ^ 63 then Inr (I64 (map (\<lambda>x. wrap_int64 (k * x)) xs))
      else Inl (OverflowError ''Python integer out of bounds for int64''))"
| "np_mul (PInt k) (F64 xs) =
     bindE (float_of_int k) (\<lambda>r. Inr (F64 (map (\<lambda>x. r * x) xs)))"

section \<open>waveform.py: the Waveform class\<close>

text \<open>
  A settings dictionary maps a query name to the instrument's raw reply; the trigger and
  MATH dictionaries hold one nested dictionary under the name of the active sub-mode.
\<close>

datatype setting = Reply string | Sub "string \<rightharpoonup> string"

type_synonym settings = "string \<rightharpoonup> setting"

record Waveform =
  version :: int
  preamble :: "string \<rightharpoonup> pynum"
  rawbuf :: "byte list"
  channel_settings :: settings
  idn_line :: string
  trigger_settings :: settings
  readings :: "byte list"
  Fs :: real
  wf_t :: ndarray
  wf_y :: ndarray

text \<open>
  \<open>Waveform.__init__\<close>. The fields \<open>self.t\<close> and \<open>self.y\<close> are \<open>wf_t\<close> and \<open>wf_y\<close>.
  The statements are in the source's order: the format check, the slice of the raw
  block, the four dictionary reads and the subtraction, the division, then
  \<open>x0 + dx*np.arange(len(self.readings))\<close> and \<open>(y0 + self.readings) * dy\<close>.
\<close>

definition Waveform_init ::
  "(string \<rightharpoonup> pynum) \<Rightarrow> byte list \<Rightarrow> settings \<Rightarrow> string \<Rightarrow> settings \<Rightarrow> int \<Rightarrow> exn + Waveform" where
  "Waveform_init p buf cs idn ts v =
     bindE (getitem p ''format'') (\<lambda>fmt.
       if py_nonzero fmt then Inl (ValueError ''Unhandled buffer format'')
       else
         let rd = np_frombuffer_B (py_slice 11 (- 1) buf) in
         bindE (getitem p ''x_step'') (\<lambda>dx.
         bindE (getitem p ''x_origin'') (\<lambda>x0.
         bindE (getitem p ''y_step'') (\<lambda>dy.
         bindE (getitem p ''y_origin'') (\<lambda>yo.
         bindE (getitem p ''y_reference'') (\<lambda>yr.
         bindE (py_sub yo yr) (\<lambda>y0.
         bindE (py_truediv 1 dx) (\<lambda>fs.
         bindE (np_mul dx (np_arange (length rd))) (\<lambda>dx_i.
         bindE (np_add x0 dx_i) (\<lambda>t.
         bindE (np_add y0 (U8 rd)) (\<lambda>y0_rd.
         bindE (np_mul dy y0_rd) (\<lambda>y.
           Inr \<lparr> version = v, preamble = p, rawbuf = buf, channel_settings = cs,
                 idn_line = idn, trigger_settings = ts, readings = rd, Fs = fs,
                 wf_t = t, wf_y = y \<rparr>))))))))))))"

text \<open>
  The preamble of the specification's end-to-end example, as the dictionary of floats
  that the preamble decoder makes of it.
\<close>

definition example_preamble :: "string \<rightharpoonup> pynum" where
  "example_preamble =
     [''format'' \<mapsto> PFloat 0, ''mode'' \<mapsto> PFloat 0, ''n_points'' \<mapsto> PFloat 1400,
      ''n_avgs'' \<mapsto> PFloat 1, ''x_step'' \<mapsto> PFloat (1 / 1000000),
      ''x_origin'' \<mapsto> PFloat (- 7 / 10000), ''x_reference'' \<mapsto> PFloat 0,
      ''y_step'' \<mapsto> PFloat (4 / 100), ''y_origin'' \<mapsto> PFloat 5,
      ''y_reference'' \<mapsto> PFloat 127]"

text \<open>
  A preamble as \<open>json.loads\<close> returns it from a document written by hand, with the
  vertical origin and reference as ints: their difference is the int 200.
\<close>

definition int_offset_preamble :: "string \<rightharpoonup> pynum" where
  "int_offset_preamble =
     [''format'' \<mapsto> PInt 0, ''mode'' \<mapsto> PInt 0, ''n_points'' \<mapsto> PInt 2,
      ''n_avgs'' \<mapsto> PInt 1, ''x_step'' \<mapsto> PFloat (1 / 1000000),
      ''x_origin'' \<mapsto> PFloat 0, ''x_reference'' \<mapsto> PInt 0,
      ''y_step'' \<mapsto> PFloat (1 / 4), ''y_origin'' \<mapsto> PInt 327,
      ''y_reference'' \<mapsto> PInt 127]"

text \<open>
  A raw block in the instrument's framing: the eleven header bytes \<open>#9000000002\<close>, the
  two samples 120 and 130, and the terminating newline.
\<close>

definition example_block :: "byte list" where
  "example_block = [35, 57, 48, 48, 48, 48, 48, 48, 48, 48, 50, 120, 130, 10]"

section \<open>waveform.py: serialization\<close>

subsection \<open>The standard library's base64 codec\<close>

text \<open>
  \<open>base64.b64encode\<close> (followed by the source's \<open>.decode('iso8859-1')\<close>, which maps
  each byte to the character of the same code) and \<open>base64.b64decode\<close> on a string:
  the string must be ASCII, then CPython's \<open>binascii.a2b_base64\<close> runs in its default,
  non-strict mode, a loop over the characters with the state \<open>quad_pos\<close>, \<open>leftchar\<close>,
  \<open>pads\<close> and the output written so far.
\<close>

definition table_b2a_base64 :: string where
  "table_b2a_base64 = ''ABCDEFGHIJKLMNOPQRSTUVWXYZabcdefghijklmnopqrstuvwxyz0123456789+/''"

definition b2a :: "byte \<Rightarrow> char" where
  "b2a v = table_b2a_base64 ! unat (v AND 63)"

fun b64encode :: "byte list \<Rightarrow> string" where
  "b64encode [] = []"
| "b64encode [a] =
     [b2a (drop_bit 2 a), b2a (push_bit 4 (a AND 3)), CHR ''='', CHR ''='']"
| "b64encode [a, b] =
     [b2a (drop_bit 2 a), b2a (push_bit 4 (a AND 3) OR drop_bit 4 b),
      b2a (push_bit 2 (b AND 15)), CHR ''='']"
| "b64encode (a # b # c # rest) =
     b2a (drop_bit 2 a) # b2a (push_bit 4 (a AND 3) OR drop_bit 4 b) #
     b2a (push_bit 2 (b AND 15) OR drop_bit 6 c) # b2a (c AND 63) # b64encode rest"

fun index_of :: "'a \<Rightarrow> 'a list \<Rightarrow> nat \<Rightarrow> nat option" where
  "index_of c [] i = None"
| "index_of c (x # xs) i = (if x = c then Some i else index_of c xs (Suc i))"

definition table_a2b_base64 :: "char \<Rightarrow> byte option" where
  "table_a2b_base64 c = map_option of_nat (index_of c table_b2a_base64 0)"

fun a2b_base64 :: "string \<Rightarrow> nat \<Rightarrow> byte \<Rightarrow> nat \<Rightarrow> byte list \<Rightarrow> exn + byte list" where
  "a2b_base64 [] quad_pos leftchar pads out =
     (if quad_pos \<noteq> 0 then
        (if quad_pos = 1 then Inl (BinasciiError ''Invalid base64-encoded string'')
         else Inl (BinasciiError ''Incorrect padding''))
      else Inr out)"
| "a2b_base64 (c # cs) quad_pos leftchar pads out =
     (if c = CHR ''='' then
        (if quad_pos \<ge> 2 then
           (if quad_pos + (pads + 1) \<ge> 4 then Inr out
            else a2b_base64 cs quad_pos leftchar (pads + 1) out)
         else a2b_base64 cs quad_pos leftchar pads out)
      else
        (case table_a2b_base64 c of
           None \<Rightarrow> a2b_base64 cs quad_pos leftchar pads out
         | Some this_ch \<Rightarrow>
             (if quad_pos = 0 then a2b_base64 cs 1 this_ch 0 out
              else if quad_pos = 1 then
                a2b_base64 cs 2 (this_ch AND 15) 0
                  (out @ [push_bit 2 leftchar OR drop_bit 4 this_ch])
              else if quad_pos = 2 then
                a2b_base64 cs 3 (this_ch AND 3) 0
                  (out @ [push_bit 4 leftchar OR drop_bit 2 this_ch])
              else
                a2b_base64 cs 0 0 0 (out @ [push_bit 6 leftchar OR this_ch]))))"

definition b64decode :: "string \<Rightarrow> exn + byte list" where
  "b64decode s =
     (if list_ex (\<lambda>c. (of_char c :: nat) \<ge> 128) s
      then Inl (ValueError ''string argument should contain only ASCII characters'')
      else a2b_base64 s 0 0 0 [])"

subsection \<open>The Waveform document\<close>

text \<open>
  The dictionary that \<open>json.dumps\<close> takes and \<open>json.loads\<close> returns, with the six keys
  the code reads or writes typed as the constructor's parameters are: a key that is
  absent is \<open>None\<close>, and \<open>d_other\<close> lists the document's keys besides the six.
\<close>

record wf_doc =
  d_version :: "int option"
  d_idn_line :: "string option"
  d_channel_settings :: "settings option"
  d_trigger_settings :: "settings option"
  d_preamble :: "(string \<rightharpoonup> pynum) option"
  d_buf_b64 :: "string option"
  d_other :: "string list"

definition Waveform_json_dict :: "Waveform \<Rightarrow> wf_doc" where
  "Waveform_json_dict w =
     \<lparr> d_version = Some (version w),
       d_idn_line = Some (idn_line w),
       d_channel_settings = Some (channel_settings w),
       d_trigger_settings = Some (trigger_settings w),
       d_preamble = Some (preamble w),
       d_buf_b64 = Some (b64encode (rawbuf w)),
       d_other = [] \<rparr>"

text \<open>
  \<open>Waveform._from_json_dict\<close>: \<open>d["buf_b64"]\<close> is decoded, the copy \<open>dp\<close> loses
  \<open>buf_b64\<close> and gains \<open>rawbuf\<close> (overwriting a \<open>rawbuf\<close> key of the document), and
  \<open>cls(**dp)\<close> binds the keys to the constructor's parameters by name: a key that is no
  parameter, or a missing parameter other than \<open>version\<close> (default 1), is a TypeError.
\<close>

definition Waveform_from_json_dict :: "wf_doc \<Rightarrow> exn + Waveform" where
  "Waveform_from_json_dict d =
     bindE (case d_buf_b64 d of None \<Rightarrow> Inl (KeyError ''buf_b64'') | Some s \<Rightarrow> b64decode s)
       (\<lambda>buf.
          if list_ex (\<lambda>k. k \<noteq> ''rawbuf'') (d_other d)
          then Inl (TypeError ''unexpected keyword argument'')
          else
            (case (d_preamble d, d_channel_settings d, d_idn_line d, d_trigger_settings d) of
               (Some p, Some cs, Some idn, Some ts) \<Rightarrow>
                 Waveform_init p buf cs idn ts (case d_version d of None \<Rightarrow> 1 | Some v \<Rightarrow> v)
             | _ \<Rightarrow> Inl (TypeError ''missing required positional argument'')))"

text \<open>
  \<open>to_jsons\<close> and \<open>from_jsons\<close>. The text layer is the standard library's: \<open>dumps\<close>
  and \<open>loads\<close> stand for \<open>json.dumps\<close> and \<open>json.loads\<close>, over any type of texts.
\<close>

definition to_jsons :: "(wf_doc \<Rightarrow> 's) \<Rightarrow> Waveform \<Rightarrow> 's" where
  "to_jsons dumps w = dumps (Waveform_json_dict w)"

definition from_jsons :: "('s \<Rightarrow> exn + wf_doc) \<Rightarrow> 's \<Rightarrow> exn + Waveform" where
  "from_jsons loads s = bindE (loads s) Waveform_from_json_dict"

subsection \<open>The WaveformBundle class\<close>

text \<open>
  \<open>self.version\<close> of a bundle is \<open>bundle_version\<close>. The \<open>waveforms\<close> dictionary is
  kept as a list of its items, since decoding visits them in order and stops at the
  first that fails.
\<close>

record WaveformBundle =
  bundle_version :: int
  channel_names :: "string \<rightharpoonup> string"
  waveforms :: "(string \<times> Waveform) list"
  title :: string

record bundle_doc =
  bd_version :: "int option"
  bd_title :: "string option"
  bd_channel_names :: "(string \<rightharpoonup> string) option"
  bd_waveforms :: "(string \<times> wf_doc) list option"
  bd_other :: "string list"

definition WaveformBundle_init ::
  "string \<Rightarrow> (string \<rightharpoonup> string) \<Rightarrow> (string \<times> Waveform) list \<Rightarrow> int \<Rightarrow> WaveformBundle" where
  "WaveformBundle_init ttl names wfs v =
     \<lparr> bundle_version = v, channel_names = names, waveforms = wfs, title = ttl \<rparr>"

definition WaveformBundle_json_dict :: "WaveformBundle \<Rightarrow> bundle_doc" where
  "WaveformBundle_json_dict b =
     \<lparr> bd_version = Some (bundle_version b),
       bd_title = Some (title b),
       bd_channel_names = Some (channel_names b),
       bd_waveforms = Some (map (\<lambda>(k, w). (k, Waveform_json_dict w)) (waveforms b)),
       bd_other = [] \<rparr>"

fun from_json_dict_items :: "(string \<times> wf_doc) list \<Rightarrow> exn + (string \<times> Waveform) list" where
  "from_json_dict_items [] = Inr []"
| "from_json_dict_items ((name, d_wf) # items) =
     bindE (Waveform_from_json_dict d_wf) (\<lambda>w.
     bindE (from_json_dict_items items) (\<lambda>ws. Inr ((name, w) # ws)))"

definition WaveformBundle_from_json_dict :: "bundle_doc \<Rightarrow> exn + WaveformBundle" where
  "WaveformBundle_from_json_dict d =
     (case bd_waveforms d of
        None \<Rightarrow> Inl (KeyError ''waveforms'')
      | Some items \<Rightarrow>
          bindE (from_json_dict_items items) (\<lambda>wfs.
            if bd_other d \<noteq> [] then Inl (TypeError ''unexpected keyword argument'')
            else
              (case (bd_title d, bd_channel_names d) of
                 (Some ttl, Some names) \<Rightarrow>
                   Inr (WaveformBundle_init ttl names wfs
                          (case bd_version d of None \<Rightarrow> 1 | Some v \<Rightarrow> v))
               | _ \<Rightarrow> Inl (TypeError ''missing required positional argument''))))"

definition bundle_from_jsons :: "('s \<Rightarrow> exn + bundle_doc) \<Rightarrow> 's \<Rightarrow> exn + WaveformBundle" where
  "bundle_from_jsons loads s = bindE (loads s) WaveformBundle_from_json_dict"

section \<open>ds4024_scpi.py: the DS4024_SCPI class\<close>

subsection \<open>The instrument link\<close>

text \<open>
  \<open>self.instrument\<close> is the VXI-11 session, an external collaborator with the three
  methods \<open>write\<close>, \<open>ask\<close> and \<open>ask_raw\<close>. What it answers may depend on everything
  sent before, so each method takes the history of commands; a transport failure is an
  exception. The driver's state is the history and the warnings emitted so far.
\<close>

datatype command = Write string | Ask string | AskRaw "byte list"

record instrument =
  inst_write :: "command list \<Rightarrow> string \<Rightarrow> exn option"
  inst_ask :: "command list \<Rightarrow> string \<Rightarrow> exn + string"
  inst_ask_raw :: "command list \<Rightarrow> byte list \<Rightarrow> exn + byte list"

record session =
  sent :: "command list"
  warned :: "string list"

type_synonym 'a prog = "session \<Rightarrow> (exn + 'a) \<times> session"

definition returnS :: "'a \<Rightarrow> 'a prog" where
  "returnS v s = (Inr v, s)"

definition raiseS :: "exn \<Rightarrow> 'a prog" where
  "raiseS e s = (Inl e, s)"

definition bindS :: "'a prog \<Rightarrow> ('a \<Rightarrow> 'b prog) \<Rightarrow> 'b prog" where
  "bindS m f s = (case m s of (Inl e, s') \<Rightarrow> (Inl e, s') | (Inr v, s') \<Rightarrow> f v s')"

text \<open>\<open>warnings.warn(msg)\<close>: the warning is recorded and execution continues.\<close>

definition warn :: "string \<Rightarrow> unit prog" where
  "warn msg s = (Inr (), s\<lparr>warned := warned s @ [msg]\<rparr>)"

text \<open>\<open>str.strip()\<close> removes the whitespace characters of Python at both ends.\<close>

definition py_isspace :: "char \<Rightarrow> bool" where
  "py_isspace c =
     ((of_char c :: nat) \<in> {9, 10, 11, 12, 13, 28, 29, 30, 31, 32, 133, 160})"

definition py_strip :: "string \<Rightarrow> string" where
  "py_strip s = rev (dropWhile py_isspace (rev (dropWhile py_isspace s)))"

text \<open>\<open>str.encode("ISO8859-1")\<close>: each character becomes the byte of its code.\<close>

definition encode_latin1 :: "string \<Rightarrow> byte list" where
  "encode_latin1 s = map (\<lambda>c. of_nat (of_char c)) s"

text \<open>\<open>str.split(',')\<close>: the pieces between the separators, at least one piece.\<close>

fun py_split :: "char \<Rightarrow> string \<Rightarrow> string list" where
  "py_split sep [] = [[]]"
| "py_split sep (c # cs) =
     (if c = sep then [] # py_split sep cs
      else (case py_split sep cs of
              w # ws \<Rightarrow> (c # w) # ws
            | [] \<Rightarrow> [[c]]))"

subsection \<open>Commands\<close>

definition RET_NONE :: string where "RET_NONE = ''none''"
definition RET_LINE :: string where "RET_LINE = ''line''"
definition RET_WAVEFORM :: string where "RET_WAVEFORM = ''waveform''"

datatype reply = RNone | RLine string | RBlock "byte list"

text \<open>\<open>_cmd\<close>: the stripped command goes to the method that \<open>ret_type\<close> selects.\<close>

definition cmd :: "instrument \<Rightarrow> string \<Rightarrow> string \<Rightarrow> reply prog" where
  "cmd I cmdline ret_type s =
     (let actual_cmdline = py_strip cmdline in
      if ret_type = RET_NONE then
        (case inst_write I (sent s) actual_cmdline of
           Some e \<Rightarrow> (Inl e, s\<lparr>sent := sent s @ [Write actual_cmdline]\<rparr>)
         | None \<Rightarrow> (Inr RNone, s\<lparr>sent := sent s @ [Write actual_cmdline]\<rparr>))
      else if ret_type = RET_LINE then
        (case inst_ask I (sent s) actual_cmdline of
           Inl e \<Rightarrow> (Inl e, s\<lparr>sent := sent s @ [Ask actual_cmdline]\<rparr>)
         | Inr l \<Rightarrow> (Inr (RLine l), s\<lparr>sent := sent s @ [Ask actual_cmdline]\<rparr>))
      else
        (case inst_ask_raw I (sent s) (encode_latin1 actual_cmdline) of
           Inl e \<Rightarrow> (Inl e, s\<lparr>sent := sent s @ [AskRaw (encode_latin1 actual_cmdline)]\<rparr>)
         | Inr b \<Rightarrow> (Inr (RBlock b), s\<lparr>sent := sent s @ [AskRaw (encode_latin1 actual_cmdline)]\<rparr>)))"

text \<open>
  The callers of \<open>_cmd\<close> use the reply as a string or as bytes; \<open>ask\<close> always returns
  the one and \<open>ask_raw\<close> the other, so the last case of each function is never taken.
\<close>

definition as_line :: "reply \<Rightarrow> string prog" where
  "as_line r = (case r of RLine l \<Rightarrow> returnS l | _ \<Rightarrow> raiseS (TypeError ''reply is not a str''))"

definition as_block :: "reply \<Rightarrow> byte list prog" where
  "as_block r = (case r of RBlock b \<Rightarrow> returnS b | _ \<Rightarrow> raiseS (TypeError ''reply is not bytes''))"

definition idn :: "instrument \<Rightarrow> string prog" where
  "idn I = bindS (cmd I ''*IDN?'' RET_LINE) as_line"

subsection \<open>The preamble\<close>

text \<open>
  \<open>fmt, modeno, ..., yref = map(float, preamble.split(','))\<close>. The map is lazy: the
  unpacking takes ten items one by one, each converted by \<open>float\<close> when it is taken, and
  then asks for an eleventh to see that there is none. \<open>pyfloat\<close> stands for the built-in
  \<open>float\<close> on strings, \<open>None\<close> where it raises ValueError.
\<close>

fun unpack_floats :: "(string \<Rightarrow> real option) \<Rightarrow> nat \<Rightarrow> string list \<Rightarrow> exn + real list" where
  "unpack_floats pyfloat 0 [] = Inr []"
| "unpack_floats pyfloat 0 (x # xs) =
     (case pyfloat x of
        None \<Rightarrow> Inl (ValueError ''could not convert string to float'')
      | Some v \<Rightarrow> Inl (ValueError ''too many values to unpack''))"
| "unpack_floats pyfloat (Suc n) [] = Inl (ValueError ''not enough values to unpack'')"
| "unpack_floats pyfloat (Suc n) (x # xs) =
     (case pyfloat x of
        None \<Rightarrow> Inl (ValueError ''could not convert string to float'')
      | Some v \<Rightarrow> bindE (unpack_floats pyfloat n xs) (\<lambda>vs. Inr (v # vs)))"

definition preamble_keys :: "string list" where
  "preamble_keys =
     [''format'', ''mode'', ''n_points'', ''n_avgs'', ''x_step'', ''x_origin'',
      ''x_reference'', ''y_step'', ''y_origin'', ''y_reference'']"

definition parse_preamble :: "(string \<Rightarrow> real option) \<Rightarrow> string \<Rightarrow> exn + (string \<rightharpoonup> pynum)" where
  "parse_preamble pyfloat s =
     bindE (unpack_floats pyfloat 10 (py_split CHR '','' s))
       (\<lambda>vs. Inr (map_of (zip preamble_keys (map PFloat vs))))"

definition fetch_preamble :: "instrument \<Rightarrow> (string \<Rightarrow> real option) \<Rightarrow> (string \<rightharpoonup> pynum) prog" where
  "fetch_preamble I pyfloat =
     bindS (bindS (cmd I '':WAV:PRE?'' RET_LINE) as_line) (\<lambda>preamble_s s.
       (parse_preamble pyfloat preamble_s, s))"

subsection \<open>Settings capture\<close>

text \<open>\<open>_fetch_settings\<close>: one query \<open>:prefix:s?\<close> for each entry of the list, in order.\<close>

fun fetch_settings_loop ::
  "instrument \<Rightarrow> string \<Rightarrow> string list \<Rightarrow> (string \<rightharpoonup> string) \<Rightarrow> (string \<rightharpoonup> string) prog" where
  "fetch_settings_loop I prefix [] result = returnS result"
| "fetch_settings_loop I prefix (s # rest) result =
     bindS (bindS (cmd I ('':'' @ prefix @ '':'' @ s @ ''?'') RET_LINE) as_line) (\<lambda>r.
       fetch_settings_loop I prefix rest (result(s \<mapsto> r)))"

definition fetch_settings :: "instrument \<Rightarrow> string \<Rightarrow> string list \<Rightarrow> (string \<rightharpoonup> string) prog" where
  "fetch_settings I prefix settings = fetch_settings_loop I prefix settings Map.empty"

text \<open>A dictionary of replies, seen as a settings dictionary that can take a nested one.\<close>

definition replies :: "(string \<rightharpoonup> string) \<Rightarrow> settings" where
  "replies d = map_option Reply \<circ> d"

text \<open>\<open>top_level["MODE"]\<close> in a dictionary of replies.\<close>

definition reply_item :: "(string \<rightharpoonup> string) \<Rightarrow> string \<Rightarrow> string prog" where
  "reply_item d k s = (getitem d k, s)"

definition trigger_settings_list :: "string list" where
  "trigger_settings_list =
     [''STAT'', ''COUP'', ''HOLD'', ''MODE'', ''STAT'', ''STAT'', ''SWE'', ''NREJ'']"

definition trigger_subfam_settings :: "string \<rightharpoonup> string list" where
  "trigger_subfam_settings = map_of
     [(''CAN'', [''BAUD'', ''BUS'', ''FTYP'', ''LEV'', ''SOUR'', ''SPO'', ''STYP'', ''WHEN'']),
      (''EDGE'', [''LEV'', ''SLOP'', ''SOUR'']),
      (''IIC'', [''ADDR'', ''AWID'', ''CLEV'', ''DATA'', ''DIR'', ''DLEV'', ''SCL'', ''SDA'', ''WHEN'']),
      (''PATT'', [''LEV'', ''PATT'', ''SOUR'']),
      (''PULS'', [''LEV'', ''LWID'', ''SOUR'', ''UWID'', ''WHEN'']),
      (''RUNT'', [''ALEV'', ''BLEV'', ''POL'', ''SOUR'', ''WHEN'', ''WLOW'', ''WUPP'']),
      (''NEDG'', [''EDGE'', ''IDLE'', ''LEV'', ''SLOP'', ''SOUR'']),
      (''RS232'', [''BAUD'', ''BUS'', ''DATA'', ''LEV'', ''PAR'', ''SOUR'', ''STOP'', ''WHEN'', ''WIDT'']),
      (''SLOP'', [''ALEV'', ''BLEV'', ''SOUR'', ''TLOW'', ''TUPP'', ''WHEN'', ''WIND'']),
      (''SPI'', [''CLEV'', ''CS'', ''DATA'', ''DLEV'', ''MODE'', ''SCL'',
                 ''SDA'', ''SLEV'', ''SLOP'', ''TIM'', ''WHEN'', ''WIDT'']),
      (''USB'', [''DMIN'', ''DPL'', ''MLEV'', ''PLEV'', ''SPE'', ''WHEN'']),
      (''VID'', [''LEV'', ''LINE'', ''MODE'', ''POL'', ''SOUR'', ''STAN'']),
      (''FLEX'', [''BAUD'', ''LEV'', ''SOUR'', ''WHEN''])]"

text \<open>
  \<open>_fetch_trigger_settings\<close>. The arguments of the second \<open>_fetch_settings\<close> call are
  evaluated before it: an unknown sub-mode is a KeyError of the table, after the warning
  and before any query of the second phase.
\<close>

definition fetch_trigger_settings :: "instrument \<Rightarrow> settings prog" where
  "fetch_trigger_settings I =
     bindS (fetch_settings I ''TRIG'' trigger_settings_list) (\<lambda>top_level.
     bindS (reply_item top_level ''MODE'') (\<lambda>subfam.
     bindS (if subfam \<notin> set [''EDGE'']
            then warn (''Capturing state of trigger mode '' @ subfam @ '' is untested'')
            else returnS ()) (\<lambda>_.
     bindS (\<lambda>s. (getitem trigger_subfam_settings subfam, s)) (\<lambda>params.
     bindS (fetch_settings I (''TRIG:'' @ subfam) params) (\<lambda>sublevel.
       returnS ((replies top_level)(subfam \<mapsto> Sub sublevel)))))))"

text \<open>
  \<open>_fetch_calc_settings\<close>. Its table holds Python sets, whose iteration order is not
  fixed by the language: \<open>set_order\<close> gives the order in which a set, written here as
  the list of its elements, is iterated.
\<close>

definition calc_subfam_settings :: "string \<rightharpoonup> string list" where
  "calc_subfam_settings = map_of
     [(''ADV'', [''EXPR'', ''INV'', ''VAR1'', ''VAR2'', ''VOFF'', ''VSC'']),
      (''ADD'', [''INV'', ''SA'', ''SB'', ''VOFF'', ''VSC'']),
      (''DIV'', [''INV'', ''SA'', ''SB'', ''VOFF'', ''VSC'']),
      (''FFT'', [''HCEN'', ''HOFF'', ''HSC'', ''HSP'', ''SOUR'', ''SPL'', ''VOFF'', ''VSC'', ''VSM'', ''WIND'']),
      (''LOG'', [''ATHR'', ''BTHR'', ''INV'', ''OPER'', ''SA'', ''SB'', ''VOFF'', ''VSC'']),
      (''MULT'', [''INV'', ''SA'', ''SB'', ''VOFF'', ''VSC'']),
      (''SUB'', [''INV'', ''SA'', ''SB'', ''VOFF'', ''VSC''])]"

definition fetch_calc_settings :: "instrument \<Rightarrow> (string list \<Rightarrow> string list) \<Rightarrow> settings prog" where
  "fetch_calc_settings I set_order =
     bindS (fetch_settings I ''CALC'' [''MODE'']) (\<lambda>top_level.
     bindS (reply_item top_level ''MODE'') (\<lambda>subfam.
     bindS (if subfam \<notin> set [''SUB'']
            then warn (''Capturing state of calc mode '' @ subfam @ '' is untested'')
            else returnS ()) (\<lambda>_.
     bindS (\<lambda>s. (getitem calc_subfam_settings subfam, s)) (\<lambda>params.
     bindS (fetch_settings I (''CALC:'' @ subfam) (set_order params)) (\<lambda>sublevel.
       returnS ((replies top_level)(subfam \<mapsto> Sub sublevel)))))))"

definition channel_settings_list :: "string list" where
  "channel_settings_list =
     [''BVOL'', ''BWL'', ''COUP'', ''DISP'', ''IMP'', ''INV'',
      ''OFFS'', ''PEND'', ''PROB'', ''SCAL'', ''TCAL'', ''TYPE'',
      ''UNIT'', ''VERN'']"

definition fetch_channel_settings ::
  "instrument \<Rightarrow> (string list \<Rightarrow> string list) \<Rightarrow> string \<Rightarrow> settings prog" where
  "fetch_channel_settings I set_order channel =
     (if channel = ''MATH'' then fetch_calc_settings I set_order
      else if channel = ''FFT'' then raiseS (Exception ''FFT Settings capture not yet implemented'')
      else bindS (fetch_settings I channel channel_settings_list) (\<lambda>r. returnS (replies r)))"

subsection \<open>Fetching a waveform\<close>

definition set_channel :: "instrument \<Rightarrow> string \<Rightarrow> reply prog" where
  "set_channel I channel_name = cmd I ('':WAV:SOUR '' @ channel_name) RET_NONE"

text \<open>
  \<open>fetch_waveform\<close>. In the branch for a nonzero mode, the message of the warning is the
  f-string \<open>f"Preamble mode {mode} unsupported"\<close>, and no variable \<open>mode\<close> is bound in the
  method, the module or the built-ins: evaluating the argument raises NameError before
  \<open>warnings.warn\<close> is called. The parameter \<open>trigger_settings\<close> is \<open>None\<close> or a
  dictionary captured before; the constructor is called with its default version 1.
\<close>

definition fetch_waveform ::
  "instrument \<Rightarrow> (string \<Rightarrow> real option) \<Rightarrow> (string list \<Rightarrow> string list) \<Rightarrow>
     string \<Rightarrow> settings option \<Rightarrow> Waveform prog" where
  "fetch_waveform I pyfloat set_order channel trigger_settings_arg =
     bindS (set_channel I channel) (\<lambda>_.
     bindS (fetch_preamble I pyfloat) (\<lambda>p.
     bindS (\<lambda>s. (getitem p ''mode'', s)) (\<lambda>m.
     bindS (if py_nonzero m then raiseS (NameError ''mode'') else returnS ()) (\<lambda>_.
     bindS (bindS (cmd I '':WAV:DATA?'' RET_WAVEFORM) as_block) (\<lambda>buf.
     bindS (fetch_channel_settings I set_order channel) (\<lambda>cset.
     bindS (idn I) (\<lambda>idn_reply.
     bindS (case trigger_settings_arg of
              None \<Rightarrow> fetch_trigger_settings I
            | Some ts \<Rightarrow> returnS ts) (\<lambda>ts s.
       (Waveform_init p buf cset idn_reply ts 1, s)))))))))"

text \<open>
  A scripted instrument for the examples: it accepts every write, answers the preamble
  query with a given line, the trigger mode query with a given sub-mode, every other
  query with the command it was asked, and the data query with a given block.
\<close>

definition scripted :: "string \<Rightarrow> string \<Rightarrow> byte list \<Rightarrow> instrument" where
  "scripted preamble_line trigger_mode block =
     \<lparr> inst_write = (\<lambda>h c. None),
       inst_ask = (\<lambda>h c. if c = '':WAV:PRE?'' then Inr preamble_line
                          else if c = '':TRIG:MODE?'' then Inr trigger_mode
                          else Inr c),
       inst_ask_raw = (\<lambda>h c. Inr block) \<rparr>"

text \<open>
  A stand-in for \<open>float\<close> in the examples: it reads a string of decimal digits, on which
  it agrees with the built-in, and rejects every other string.
\<close>

fun digits_value :: "string \<Rightarrow> nat \<Rightarrow> nat option" where
  "digits_value [] acc = Some acc"
| "digits_value (c # cs) acc =
     (if 48 \<le> (of_char c :: nat) \<and> (of_char c :: nat) \<le> 57
      then digits_value cs (10 * acc + (of_char c - 48))
      else None)"

definition digits_float :: "string \<Rightarrow> real option" where
  "digits_float s = (if s = [] then None else map_option real (digits_value s 0))"

definition session0 :: session where
  "session0 = \<lparr> sent = [], warned = [] \<rparr>"

section \<open>Properties of Waveform construction\<close>

lemma bindE_simps:
  "bindE (Inl e) f = Inl e"
  "bindE (Inr v) f = f v"
  by (simp_all add: bindE_def)

lemma getitem_Some: "d k = Some v \<Longrightarrow> getitem d k = Inr v"
  by (simp add: getitem_def)

lemma length_py_slice_11_m1: "length (py_slice 11 (- 1) xs) = length xs - 12"
  by (auto simp: py_slice_def slice_index_def Let_def)

lemma example_preamble_simps:
  "example_preamble ''format'' = Some (PFloat 0)"
  "example_preamble ''x_step'' = Some (PFloat (1 / 1000000))"
  "example_preamble ''x_origin'' = Some (PFloat (- 7 / 10000))"
  "example_preamble ''y_step'' = Some (PFloat (4 / 100))"
  "example_preamble ''y_origin'' = Some (PFloat 5)"
  "example_preamble ''y_reference'' = Some (PFloat 127)"
  "example_preamble ''n_points'' = Some (PFloat 1400)"
  by (simp_all add: example_preamble_def)

lemma Waveform_init_float:
  assumes "p ''format'' = Some f" "\<not> py_nonzero f"
    "p ''x_step'' = Some (PFloat dx)" "dx \<noteq> 0"
    "p ''x_origin'' = Some (PFloat x0)" "p ''y_step'' = Some (PFloat dy)"
    "p ''y_origin'' = Some (PFloat yo)" "p ''y_reference'' = Some (PFloat yr)"
  shows "Waveform_init p buf cs ident ts v =
     Inr \<lparr> version = v, preamble = p, rawbuf = buf, channel_settings = cs,
           idn_line = ident, trigger_settings = ts, readings = py_slice 11 (- 1) buf, Fs = 1 / dx,
           wf_t = F64 (map (\<lambda>i. x0 + dx * real i) [0..<length buf - 12]),
           wf_y = F64 (map (\<lambda>s. dy * (yo - yr + real (unat s))) (py_slice 11 (- 1) buf)) \<rparr>"
  using assms
  by (simp add: Waveform_init_def getitem_Some bindE_simps py_truediv_def np_frombuffer_B_def
      np_arange_def length_py_slice_11_m1 Let_def comp_def)

lemma Waveform_init_InrD:
  assumes "Waveform_init p buf cs ident ts v = Inr w"
  shows "(\<exists>f. p ''format'' = Some f \<and> \<not> py_nonzero f) \<and> p ''x_step'' \<noteq> Some (PFloat 0)"
  using assms
  by (auto simp: Waveform_init_def getitem_def bindE_def py_truediv_def Let_def
      split: option.splits if_splits sum.splits)

lemma Waveform_init_fields:
  assumes "Waveform_init p buf cs ident ts v = Inr w"
  shows "preamble w = p \<and> rawbuf w = buf \<and> channel_settings w = cs \<and> idn_line w = ident \<and>
    trigger_settings w = ts \<and> version w = v"
  using assms
  by (auto simp: Waveform_init_def getitem_def bindE_def Let_def
      split: option.splits if_splits sum.splits)

lemma bindE_Inl_iff:
  "(bindE m f = Inl e) = (m = Inl e \<or> (\<exists>v. m = Inr v \<and> f v = Inl e))"
  by (cases m) (simp_all add: bindE_def)

lemma array_chain_error:
  "(bindE (np_mul dx (np_arange n)) (\<lambda>a. bindE (np_add x0 a) (\<lambda>t.
      bindE (np_add y0 (U8 bs)) (\<lambda>c. bindE (np_mul dy c) (\<lambda>y. Inr (F t y))))) = Inl e) =
   (bindE (np_mul dx (np_arange n')) (\<lambda>a. bindE (np_add x0 a) (\<lambda>t.
      bindE (np_add y0 (U8 bs')) (\<lambda>c. bindE (np_mul dy c) (\<lambda>y. Inr (F' t y))))) = Inl e)"
  by (cases dx; cases x0; cases dy; cases y0)
     (auto simp add: np_arange_def bindE_def float_of_int_def split: sum.splits)

subsection \<open>Unsupported sample format\<close>

text \<open>
  Claim C8. For every preamble whose \<open>format\<close> field is nonzero, be it an int or a
  float, Waveform construction fails with the unsupported-format error (the ValueError of
  the format check), whatever the raw block and the other arguments are: no Waveform is
  returned, so none with zeroed, truncated or otherwise wrong samples.
\<close>

theorem unsupported_format_rejected:
  "p ''format'' = Some f \<Longrightarrow> py_nonzero f \<Longrightarrow>
   Waveform_init p buf cs ident ts v = Inl (ValueError ''Unhandled buffer format'')"
  by (simp add: Waveform_init_def getitem_Some bindE_simps)

theorem unsupported_format_rejected_witness:
  "(example_preamble(''format'' \<mapsto> PFloat 1)) ''format'' = Some (PFloat 1) \<and>
   py_nonzero (PFloat 1) \<and>
   Waveform_init (example_preamble(''format'' \<mapsto> PFloat 1)) example_block Map.empty ''RIGOL'' Map.empty 1
     = Inl (ValueError ''Unhandled buffer format'')"
  using unsupported_format_rejected [of "example_preamble(''format'' \<mapsto> PFloat 1)" "PFloat 1"
      example_block Map.empty "''RIGOL''" Map.empty 1]
  by (simp add: py_nonzero_def)

subsection \<open>The length of the raw block\<close>

text \<open>
  Claim C2, as stated, fails: the constructor never compares the length of the raw block
  with \<open>n_points\<close>. The example preamble announces 1400 points, the example block has
  14 bytes instead of 1412, and construction succeeds.
\<close>

theorem length_mismatch_accepted_counterexample:
  "example_preamble ''n_points'' = Some (PFloat 1400) \<and>
   real (length example_block) \<noteq> 1400 + 12 \<and>
   (\<exists>w. Waveform_init example_preamble example_block Map.empty ''RIGOL'' Map.empty 1 = Inr w)"
  by (simp add: Waveform_init_float [OF example_preamble_simps(1) _ example_preamble_simps(2) _
        example_preamble_simps(3,4,5,6)]
      example_preamble_simps example_block_def py_nonzero_def)

text \<open>
  Claim C2, amended. Whether Waveform construction rejects, and with which error, depends
  on the preamble alone and never on the raw block: for every preamble, construction with
  one raw block raises an error exactly when construction with any other raw block raises
  the same error. A block whose length differs from \<open>n_points\<close> plus the framing is
  therefore accepted whenever a block of the matching length is.
\<close>

theorem construction_ignores_block_length:
  "(Waveform_init p buf cs ident ts v = Inl e) = (Waveform_init p buf' cs ident ts v = Inl e)"
proof -
  let ?rd = "np_frombuffer_B (py_slice 11 (- 1) buf)"
  let ?rd' = "np_frombuffer_B (py_slice 11 (- 1) buf')"
  have chain:
    "(bindE (np_mul dx (np_arange (length ?rd))) (\<lambda>dx_i. bindE (np_add x0 dx_i) (\<lambda>t.
        bindE (np_add y0 (U8 ?rd)) (\<lambda>y0_rd. bindE (np_mul dy y0_rd) (\<lambda>y.
          Inr \<lparr> version = v, preamble = p, rawbuf = buf, channel_settings = cs,
                idn_line = ident, trigger_settings = ts, readings = ?rd, Fs = fs,
                wf_t = t, wf_y = y \<rparr>)))) = Inl e) =
     (bindE (np_mul dx (np_arange (length ?rd'))) (\<lambda>dx_i. bindE (np_add x0 dx_i) (\<lambda>t.
        bindE (np_add y0 (U8 ?rd')) (\<lambda>y0_rd. bindE (np_mul dy y0_rd) (\<lambda>y.
          Inr \<lparr> version = v, preamble = p, rawbuf = buf', channel_settings = cs,
                idn_line = ident, trigger_settings = ts, readings = ?rd', Fs = fs,
                wf_t = t, wf_y = y \<rparr>)))) = Inl e)"
    for dx x0 dy y0 fs
    by (rule array_chain_error)
  show ?thesis
    unfolding Waveform_init_def Let_def
    by (simp add: bindE_Inl_iff [of "getitem p k" for k] bindE_Inl_iff [of "py_sub a b" for a b]
        bindE_Inl_iff [of "py_truediv a b" for a b] chain)
qed

text \<open>
  Claim C10, as stated, fails. A preamble with format 0 and \<open>x_step\<close> 0 makes the
  constructor raise ZeroDivisionError at \<open>1.0/dx\<close>; an int \<open>x_step\<close> too large for a
  float makes the same division raise OverflowError; and with the ints 5 and 127 as
  \<open>y_origin\<close> and \<open>y_reference\<close>, the int -122 is added to the array of unsigned
  8-bit samples, which NumPy 2 refuses with OverflowError.
\<close>

theorem construction_raises_counterexample:
  "(example_preamble(''x_step'' \<mapsto> PFloat 0)) ''format'' = Some (PFloat 0) \<and>
   Waveform_init (example_preamble(''x_step'' \<mapsto> PFloat 0)) example_block Map.empty ''RIGOL'' Map.empty 1
     = Inl (ZeroDivisionError ''float division by zero'') \<and>
   Waveform_init (example_preamble(''x_step'' \<mapsto> PInt (2 ^ 1024))) example_block Map.empty ''RIGOL''
       Map.empty 1
     = Inl (OverflowError ''int too large to convert to float'') \<and>
   Waveform_init (example_preamble(''y_origin'' \<mapsto> PInt 5, ''y_reference'' \<mapsto> PInt 127)) example_block
       Map.empty ''RIGOL'' Map.empty 1
     = Inl (OverflowError ''Python integer out of bounds for uint8'')"
  by (simp add: Waveform_init_def getitem_def bindE_def py_truediv_def example_preamble_def
      py_nonzero_def float_of_int_def np_arange_def)

text \<open>
  Claim C10, amended. For every preamble mapping with format 0, a nonzero float
  \<open>x_step\<close> and floats for \<open>x_origin\<close>, \<open>y_step\<close>, \<open>y_origin\<close> and \<open>y_reference\<close>
  (the preamble decoder produces floats only), and for every raw block of any length L,
  construction succeeds with a sample series of exactly max(L - 12, 0) entries;
  \<open>n_points\<close> is never consulted: with that field changed to any value, or removed,
  construction returns the same Waveform but for the stored preamble.
\<close>

theorem construction_any_block_length:
  assumes "p ''format'' = Some f" "\<not> py_nonzero f"
    "p ''x_step'' = Some (PFloat dx)" "dx \<noteq> 0"
    "p ''x_origin'' = Some (PFloat x0)" "p ''y_step'' = Some (PFloat dy)"
    "p ''y_origin'' = Some (PFloat yo)" "p ''y_reference'' = Some (PFloat yr)"
  shows "\<exists>w. Waveform_init p buf cs ident ts v = Inr w \<and>
    int (length (readings w)) = max (int (length buf) - 12) 0 \<and>
    Waveform_init (p(''n_points'' := n)) buf cs ident ts v = Inr (w\<lparr>preamble := p(''n_points'' := n)\<rparr>)"
proof -
  let ?q = "p(''n_points'' := n)"
  have q: "?q ''format'' = Some f" "?q ''x_step'' = Some (PFloat dx)"
    "?q ''x_origin'' = Some (PFloat x0)" "?q ''y_step'' = Some (PFloat dy)"
    "?q ''y_origin'' = Some (PFloat yo)" "?q ''y_reference'' = Some (PFloat yr)"
    using assms by simp_all
  show ?thesis
    unfolding Waveform_init_float [OF assms]
      Waveform_init_float [OF q(1) assms(2) q(2) assms(4) q(3-6)]
    by (simp add: length_py_slice_11_m1)
qed

theorem construction_any_block_length_witness:
  "example_preamble ''format'' = Some (PFloat 0) \<and> \<not> py_nonzero (PFloat 0) \<and>
   example_preamble ''x_step'' = Some (PFloat (1 / 1000000)) \<and>
   (\<exists>w. Waveform_init example_preamble [] Map.empty ''RIGOL'' Map.empty 1 = Inr w \<and>
      length (readings w) = 0 \<and>
      Waveform_init (example_preamble(''n_points'' := None)) [] Map.empty ''RIGOL'' Map.empty 1
        = Inr (w\<lparr>preamble := example_preamble(''n_points'' := None)\<rparr>))"
  using construction_any_block_length [OF example_preamble_simps(1) _ example_preamble_simps(2) _
      example_preamble_simps(3,4,5,6),
      of "[]" Map.empty "''RIGOL''" Map.empty 1 None]
  by (simp add: example_preamble_simps py_nonzero_def)

subsection \<open>The derived series\<close>

lemma int_offset_waveform:
  "Waveform_init int_offset_preamble example_block Map.empty ''RIGOL'' Map.empty v =
     Inr \<lparr> version = v, preamble = int_offset_preamble, rawbuf = example_block,
           channel_settings = Map.empty, idn_line = ''RIGOL'', trigger_settings = Map.empty,
           readings = [120, 130], Fs = 1000000,
           wf_t = F64 [0, 1 / 1000000],
           wf_y = F64 [16, 37 / 2] \<rparr>"
  by (simp add: Waveform_init_def getitem_def bindE_def py_truediv_def int_offset_preamble_def
      py_nonzero_def np_arange_def np_frombuffer_B_def example_block_def py_slice_def
      slice_index_def upt_rec)

text \<open>
  Claim C5, as stated, fails twice. The time series has one entry for each decoded
  sample, not \<open>n_points\<close> entries: with the example preamble (1400 points) and the
  example block (two samples) the time series has length 2, so \<open>time[i]\<close> does not exist
  for \<open>i\<close> from 2 to 1399. And with ints for \<open>y_origin\<close> and \<open>y_reference\<close>, here 327
  and 127, the offset 200 is added to the samples in unsigned 8-bit arithmetic, which
  wraps around: for the samples 120 and 130 and the step 1/4 the voltages are 16 and
  18.5, where the formula gives 80 and 82.5.
\<close>

theorem derived_series_counterexample:
  "(\<exists>w. Waveform_init example_preamble example_block Map.empty ''RIGOL'' Map.empty 1 = Inr w \<and>
      preamble w ''n_points'' = Some (PFloat 1400) \<and> length (as_float64 (wf_t w)) = 2) \<and>
   (\<exists>w. Waveform_init int_offset_preamble example_block Map.empty ''RIGOL'' Map.empty 1 = Inr w \<and>
      preamble w ''y_step'' = Some (PFloat (1 / 4)) \<and>
      preamble w ''y_origin'' = Some (PInt 327) \<and> preamble w ''y_reference'' = Some (PInt 127) \<and>
      readings w = [120, 130] \<and> wf_y w = F64 [16, 37 / 2] \<and>
      (120 + (327 - 127)) * (1 / 4) = (80 :: real))"
proof (rule conjI)
  show "\<exists>w. Waveform_init example_preamble example_block Map.empty ''RIGOL'' Map.empty 1 = Inr w \<and>
      preamble w ''n_points'' = Some (PFloat 1400) \<and> length (as_float64 (wf_t w)) = 2"
    by (simp add: Waveform_init_float [OF example_preamble_simps(1) _ example_preamble_simps(2) _
          example_preamble_simps(3,4,5,6)]
        example_preamble_simps example_block_def py_nonzero_def)
  show "\<exists>w. Waveform_init int_offset_preamble example_block Map.empty ''RIGOL'' Map.empty 1 = Inr w \<and>
      preamble w ''y_step'' = Some (PFloat (1 / 4)) \<and>
      preamble w ''y_origin'' = Some (PInt 327) \<and> preamble w ''y_reference'' = Some (PInt 127) \<and>
      readings w = [120, 130] \<and> wf_y w = F64 [16, 37 / 2] \<and>
      (120 + (327 - 127)) * (1 / 4) = (80 :: real)"
    unfolding int_offset_waveform by (simp add: int_offset_preamble_def)
qed

text \<open>
  Claim C5, amended. For every successfully constructed Waveform whose preamble fields
  x_step = dx, x_origin = x0, y_step = d, y_origin and y_reference are floats, as the
  preamble decoder produces them: dx is nonzero and the sample rate is 1/dx; the samples
  are the bytes of the raw block after its first 11 and before its last; the time and
  voltage series are arrays of doubles with one entry for each sample; for every index i
  below the number of samples, time[i] = x0 + i * dx, and the voltage of the sample s at
  i is (s + (y_origin - y_reference)) * d; and the number of samples is \<open>n_points\<close>
  when the raw block has \<open>n_points\<close> + 12 bytes.
\<close>

theorem derived_series_formulas:
  assumes "Waveform_init p buf cs ident ts v = Inr w"
    and "p ''x_step'' = Some (PFloat dx)" "p ''x_origin'' = Some (PFloat x0)"
    and "p ''y_step'' = Some (PFloat d)"
    and "p ''y_origin'' = Some (PFloat y_orig)" "p ''y_reference'' = Some (PFloat y_ref)"
  shows "dx \<noteq> 0 \<and> Fs w = 1 / dx \<and>
    readings w = py_slice 11 (- 1) buf \<and>
    (\<exists>t_values y_values. wf_t w = F64 t_values \<and> wf_y w = F64 y_values \<and>
       length t_values = length (readings w) \<and> length y_values = length (readings w) \<and>
       (\<forall>i < length (readings w).
          t_values ! i = x0 + real i * dx \<and>
          y_values ! i = (real (unat (readings w ! i)) + (y_orig - y_ref)) * d)) \<and>
    (\<forall>n. length buf = n + 12 \<longrightarrow> length (readings w) = n)"
proof -
  from Waveform_init_InrD [OF assms(1)] assms(2)
  obtain f where f: "p ''format'' = Some f" "\<not> py_nonzero f" and nz: "dx \<noteq> 0"
    by auto
  note w = Waveform_init_float [OF f assms(2) nz assms(3-6), of buf cs ident ts v]
  from assms(1) have weq: "w = \<lparr> version = v, preamble = p, rawbuf = buf, channel_settings = cs,
           idn_line = ident, trigger_settings = ts, readings = py_slice 11 (- 1) buf, Fs = 1 / dx,
           wf_t = F64 (map (\<lambda>i. x0 + dx * real i) [0..<length buf - 12]),
           wf_y = F64 (map (\<lambda>s. d * (y_orig - y_ref + real (unat s))) (py_slice 11 (- 1) buf)) \<rparr>"
    unfolding w by simp
  show ?thesis
    unfolding weq using nz
    by (auto simp: length_py_slice_11_m1 algebra_simps)
qed

theorem derived_series_formulas_witness:
  "\<exists>w. Waveform_init example_preamble example_block Map.empty ''RIGOL'' Map.empty 1 = Inr w \<and>
     Fs w = 1000000 \<and> readings w = [120, 130] \<and>
     as_float64 (wf_t w) ! 1 = - 7 / 10000 + 1 / 1000000 \<and>
     as_float64 (wf_y w) ! 0 = - 8 / 100"
proof -
  obtain w where w: "Waveform_init example_preamble example_block Map.empty ''RIGOL'' Map.empty 1 = Inr w"
    by (simp add: Waveform_init_float [OF example_preamble_simps(1) _ example_preamble_simps(2) _
        example_preamble_simps(3,4,5,6)] py_nonzero_def)
  note d = derived_series_formulas [OF w example_preamble_simps(2,3,4,5,6)]
  have r: "readings w = [120, 130]"
    using d by (simp add: example_block_def py_slice_def slice_index_def)
  from d obtain t_values y_values where
    ty: "wf_t w = F64 t_values" "wf_y w = F64 y_values"
    and series: "\<forall>i < length (readings w).
        t_values ! i = - 7 / 10000 + real i * (1 / 1000000) \<and>
        y_values ! i = (real (unat (readings w ! i)) + (5 - 127)) * (4 / 100)"
    by blast
  have "Fs w = 1000000" using d by simp
  moreover have "as_float64 (wf_t w) ! 1 = - 7 / 10000 + 1 / 1000000"
    using series [rule_format, of 1] r ty by simp
  moreover have "as_float64 (wf_y w) ! 0 = - 8 / 100"
    using series [rule_format, of 0] r ty by simp
  ultimately show ?thesis using w r by blast
qed

section \<open>Properties of the preamble decoder\<close>

lemma unpack_floats_ok:
  "length xs = n \<Longrightarrow> \<forall>x\<in>set xs. pyfloat x \<noteq> None \<Longrightarrow>
   unpack_floats pyfloat n xs = Inr (map (the \<circ> pyfloat) xs)"
proof (induction pyfloat n xs rule: unpack_floats.induct)
  case (4 pyfloat n x xs)
  then show ?case by (auto simp: bindE_simps)
qed auto

lemma unpack_floats_bad:
  "length xs \<noteq> n \<or> (\<exists>x\<in>set xs. pyfloat x = None) \<Longrightarrow>
   \<exists>msg. unpack_floats pyfloat n xs = Inl (ValueError msg)"
proof (induction pyfloat n xs rule: unpack_floats.induct)
  case (4 pyfloat n x xs)
  show ?case
  proof (cases "pyfloat x")
    case None
    then show ?thesis by simp
  next
    case (Some v)
    with "4.prems" have "length xs \<noteq> n \<or> (\<exists>x\<in>set xs. pyfloat x = None)"
      by auto
    from "4.IH" [OF Some this] obtain msg
      where "unpack_floats pyfloat n xs = Inl (ValueError msg)" ..
    with Some show ?thesis by (simp add: bindE_simps)
  qed
qed (auto split: option.splits)

lemma digits_float_simps:
  "digits_float ''0'' = Some 0" "digits_float ''1'' = Some 1" "digits_float ''5'' = Some 5"
  "digits_float ''127'' = Some 127" "digits_float ''1400'' = Some 1400"
  "digits_float ''x'' = None"
  by (simp_all add: digits_float_def)

lemma split_example:
  "py_split CHR '','' ''0,0,1400,1,1,0,0,1,5,127'' =
     [''0'', ''0'', ''1400'', ''1'', ''1'', ''0'', ''0'', ''1'', ''5'', ''127'']"
  "py_split CHR '','' ''0,1,1400,1,1,0,0,1,5,127'' =
     [''0'', ''1'', ''1400'', ''1'', ''1'', ''0'', ''0'', ''1'', ''5'', ''127'']"
  "py_split CHR '','' ''0,0,1400'' = [''0'', ''0'', ''1400'']"
  "py_split CHR '','' ''0,x,1400,1,1,0,0,1,5,127'' =
     [''0'', ''x'', ''1400'', ''1'', ''1'', ''0'', ''0'', ''1'', ''5'', ''127'']"
  by simp_all

text \<open>
  Claim C6. Preamble decoding is a function of the line alone, defined on every line. A
  line that splits at its commas into exactly 10 fields, each accepted by \<open>float\<close>,
  decodes to the dictionary that holds the ten floats under \<open>format\<close>, \<open>mode\<close>,
  \<open>n_points\<close>, \<open>n_avgs\<close>, \<open>x_step\<close>, \<open>x_origin\<close>, \<open>x_reference\<close>, \<open>y_step\<close>,
  \<open>y_origin\<close> and \<open>y_reference\<close>, in the order of the fields. A line with fewer or more
  than 10 fields, or with a field that \<open>float\<close> rejects, is rejected with a ValueError.
\<close>

theorem parse_preamble_total:
  "(py_split CHR '','' s = [a0, a1, a2, a3, a4, a5, a6, a7, a8, a9] \<and>
    pyfloat a0 = Some fmt \<and> pyfloat a1 = Some modeno \<and> pyfloat a2 = Some n_points \<and>
    pyfloat a3 = Some n_avgs \<and> pyfloat a4 = Some xinc \<and> pyfloat a5 = Some xorig \<and>
    pyfloat a6 = Some xref \<and> pyfloat a7 = Some yinc \<and> pyfloat a8 = Some yorig \<and>
    pyfloat a9 = Some yref
    \<longrightarrow> parse_preamble pyfloat s =
          Inr [''format'' \<mapsto> PFloat fmt, ''mode'' \<mapsto> PFloat modeno,
               ''n_points'' \<mapsto> PFloat n_points, ''n_avgs'' \<mapsto> PFloat n_avgs,
               ''x_step'' \<mapsto> PFloat xinc, ''x_origin'' \<mapsto> PFloat xorig,
               ''x_reference'' \<mapsto> PFloat xref, ''y_step'' \<mapsto> PFloat yinc,
               ''y_origin'' \<mapsto> PFloat yorig, ''y_reference'' \<mapsto> PFloat yref]) \<and>
   (length (py_split CHR '','' s) \<noteq> 10 \<or> (\<exists>x\<in>set (py_split CHR '','' s). pyfloat x = None)
    \<longrightarrow> (\<exists>msg. parse_preamble pyfloat s = Inl (ValueError msg)))"
proof (intro conjI impI)
  assume h: "py_split CHR '','' s = [a0, a1, a2, a3, a4, a5, a6, a7, a8, a9] \<and>
    pyfloat a0 = Some fmt \<and> pyfloat a1 = Some modeno \<and> pyfloat a2 = Some n_points \<and>
    pyfloat a3 = Some n_avgs \<and> pyfloat a4 = Some xinc \<and> pyfloat a5 = Some xorig \<and>
    pyfloat a6 = Some xref \<and> pyfloat a7 = Some yinc \<and> pyfloat a8 = Some yorig \<and>
    pyfloat a9 = Some yref"
  then have "unpack_floats pyfloat 10 (py_split CHR '','' s) =
      Inr [fmt, modeno, n_points, n_avgs, xinc, xorig, xref, yinc, yorig, yref]"
    by (simp add: unpack_floats_ok)
  then show "parse_preamble pyfloat s =
          Inr [''format'' \<mapsto> PFloat fmt, ''mode'' \<mapsto> PFloat modeno,
               ''n_points'' \<mapsto> PFloat n_points, ''n_avgs'' \<mapsto> PFloat n_avgs,
               ''x_step'' \<mapsto> PFloat xinc, ''x_origin'' \<mapsto> PFloat xorig,
               ''x_reference'' \<mapsto> PFloat xref, ''y_step'' \<mapsto> PFloat yinc,
               ''y_origin'' \<mapsto> PFloat yorig, ''y_reference'' \<mapsto> PFloat yref]"
    by (auto simp: parse_preamble_def bindE_simps preamble_keys_def fun_eq_iff)
next
  assume "length (py_split CHR '','' s) \<noteq> 10 \<or> (\<exists>x\<in>set (py_split CHR '','' s). pyfloat x = None)"
  from unpack_floats_bad [OF this]
  show "\<exists>msg. parse_preamble pyfloat s = Inl (ValueError msg)"
    by (auto simp: parse_preamble_def bindE_simps)
qed

theorem parse_preamble_total_witness:
  "parse_preamble digits_float ''0,0,1400,1,1,0,0,1,5,127'' =
     Inr [''format'' \<mapsto> PFloat 0, ''mode'' \<mapsto> PFloat 0, ''n_points'' \<mapsto> PFloat 1400,
          ''n_avgs'' \<mapsto> PFloat 1, ''x_step'' \<mapsto> PFloat 1, ''x_origin'' \<mapsto> PFloat 0,
          ''x_reference'' \<mapsto> PFloat 0, ''y_step'' \<mapsto> PFloat 1, ''y_origin'' \<mapsto> PFloat 5,
          ''y_reference'' \<mapsto> PFloat 127] \<and>
   length (py_split CHR '','' ''0,0,1400'') \<noteq> 10 \<and>
   (\<exists>msg. parse_preamble digits_float ''0,0,1400'' = Inl (ValueError msg)) \<and>
   digits_float ''x'' = None \<and>
   (\<exists>msg. parse_preamble digits_float ''0,x,1400,1,1,0,0,1,5,127'' = Inl (ValueError msg))"
  using
    parse_preamble_total [of "''0,0,1400,1,1,0,0,1,5,127''" "''0''" "''0''" "''1400''" "''1''" "''1''"
      "''0''" "''0''" "''1''" "''5''" "''127''" digits_float 0 0 1400 1 1 0 0 1 5 127]
    parse_preamble_total [of "''0,0,1400''" _ _ _ _ _ _ _ _ _ _ digits_float]
    parse_preamble_total [of "''0,x,1400,1,1,0,0,1,5,127''" _ _ _ _ _ _ _ _ _ _ digits_float]
  by (simp add: split_example digits_float_simps)

section \<open>Properties of settings capture\<close>

text \<open>
  Claim C9. Channel-settings capture for the channel \<open>FFT\<close> fails with the exception
  "FFT Settings capture not yet implemented", and the session is unchanged: the operation
  has sent no command on the transport and emitted no warning.
\<close>

theorem fft_settings_not_implemented:
  "fetch_channel_settings I set_order ''FFT'' s =
     (Inl (Exception ''FFT Settings capture not yet implemented''), s)"
  by (simp add: fetch_channel_settings_def raiseS_def)

lemma py_strip_id:
  assumes "s \<noteq> []" "\<not> py_isspace (hd s)" "\<not> py_isspace (last s)"
  shows "py_strip s = s"
proof -
  have a: "dropWhile py_isspace s = s"
    using assms(1,2) by (cases s) simp_all
  have "rev s \<noteq> []" "\<not> py_isspace (hd (rev s))"
    using assms(1,3) by (simp_all add: hd_rev)
  then have b: "dropWhile py_isspace (rev s) = rev s"
    by (cases "rev s") simp_all
  show ?thesis by (simp add: py_strip_def a b)
qed

lemma py_strip_query: "py_strip (CHR '':'' # body @ ''?'') = CHR '':'' # body @ ''?''"
  by (rule py_strip_id) (simp_all add: py_isspace_def)

lemma bindS_Inr: "m s = (Inr v, s') \<Longrightarrow> bindS m f s = f v s'"
  by (simp add: bindS_def)

lemma bindS_Inl: "m s = (Inl e, s') \<Longrightarrow> bindS m f s = (Inl e, s')"
  by (simp add: bindS_def)

lemma bind_ask_Inr:
  "bindS (cmd I c RET_LINE) as_line s = (Inr v, s') \<Longrightarrow>
   bindS (bindS (cmd I c RET_LINE) as_line) f s = f v s'"
  by (rule bindS_Inr)

lemma bind_ask_Inl:
  "bindS (cmd I c RET_LINE) as_line s = (Inl e, s') \<Longrightarrow>
   bindS (bindS (cmd I c RET_LINE) as_line) f s = (Inl e, s')"
  by (rule bindS_Inl)

lemma ask_line:
  "inst_ask I (sent s) (py_strip c) = Inr l \<Longrightarrow>
   bindS (cmd I c RET_LINE) as_line s = (Inr l, s\<lparr>sent := sent s @ [Ask (py_strip c)]\<rparr>)"
  by (simp add: bindS_def cmd_def as_line_def returnS_def RET_LINE_def RET_NONE_def)

lemma ask_line_cases:
  "(\<exists>l. bindS (cmd I c RET_LINE) as_line s = (Inr l, s\<lparr>sent := sent s @ [Ask (py_strip c)]\<rparr>)) \<or>
   (\<exists>e. bindS (cmd I c RET_LINE) as_line s = (Inl e, s\<lparr>sent := sent s @ [Ask (py_strip c)]\<rparr>))"
  by (cases "inst_ask I (sent s) (py_strip c)")
     (simp_all add: bindS_def cmd_def as_line_def returnS_def RET_LINE_def RET_NONE_def)

lemma fetch_settings_loop_sent:
  "fetch_settings_loop I prefix xs r s = (Inr r', s') \<Longrightarrow>
   sent s' = sent s @ map (\<lambda>x. Ask ('':'' @ prefix @ '':'' @ x @ ''?'')) xs \<and> warned s' = warned s"
proof (induction xs arbitrary: r s)
  case Nil
  then show ?case by (simp add: returnS_def)
next
  case (Cons x xs)
  let ?c = "'':'' @ prefix @ '':'' @ x @ ''?''"
  have st: "py_strip (CHR '':'' # prefix @ CHR '':'' # x @ ''?'') =
      CHR '':'' # prefix @ CHR '':'' # x @ ''?''"
    using py_strip_query [of "prefix @ '':'' @ x"] by simp
  from ask_line_cases [of I ?c s] show ?case
  proof (elim disjE exE)
    fix l
    assume l: "bindS (cmd I ?c RET_LINE) as_line s = (Inr l, s\<lparr>sent := sent s @ [Ask (py_strip ?c)]\<rparr>)"
    have "fetch_settings_loop I prefix (x # xs) r s =
        fetch_settings_loop I prefix xs (r(x \<mapsto> l)) (s\<lparr>sent := sent s @ [Ask (py_strip ?c)]\<rparr>)"
      by (simp only: fetch_settings_loop.simps bind_ask_Inr [OF l])
    with Cons.prems have
      "fetch_settings_loop I prefix xs (r(x \<mapsto> l)) (s\<lparr>sent := sent s @ [Ask (py_strip ?c)]\<rparr>) = (Inr r', s')"
      by simp
    from Cons.IH [OF this] show ?thesis by (simp add: st)
  next
    fix e
    assume e: "bindS (cmd I ?c RET_LINE) as_line s = (Inl e, s\<lparr>sent := sent s @ [Ask (py_strip ?c)]\<rparr>)"
    have "fetch_settings_loop I prefix (x # xs) r s =
        (Inl e, s\<lparr>sent := sent s @ [Ask (py_strip ?c)]\<rparr>)"
      by (simp only: fetch_settings_loop.simps bind_ask_Inl [OF e])
    with Cons.prems show ?thesis by simp
  qed
qed

lemma fetch_settings_sent:
  "fetch_settings I prefix xs s = (Inr r, s') \<Longrightarrow>
   sent s' = sent s @ map (\<lambda>x. Ask ('':'' @ prefix @ '':'' @ x @ ''?'')) xs \<and> warned s' = warned s"
  unfolding fetch_settings_def by (rule fetch_settings_loop_sent)

lemma fetch_settings_edge:
  assumes "inst_ask I (sent s1) '':TRIG:EDGE:LEV?'' = Inr lev"
    and "inst_ask I (sent s1 @ [Ask '':TRIG:EDGE:LEV?'']) '':TRIG:EDGE:SLOP?'' = Inr slop"
    and "inst_ask I (sent s1 @ [Ask '':TRIG:EDGE:LEV?'', Ask '':TRIG:EDGE:SLOP?''])
            '':TRIG:EDGE:SOUR?'' = Inr sour"
  shows "fetch_settings I ''TRIG:EDGE'' [''LEV'', ''SLOP'', ''SOUR''] s1 =
     (Inr [''LEV'' \<mapsto> lev, ''SLOP'' \<mapsto> slop, ''SOUR'' \<mapsto> sour],
      s1\<lparr>sent := sent s1 @
        [Ask '':TRIG:EDGE:LEV?'', Ask '':TRIG:EDGE:SLOP?'', Ask '':TRIG:EDGE:SOUR?'']\<rparr>)"
proof -
  have st: "py_strip '':TRIG:EDGE:LEV?'' = '':TRIG:EDGE:LEV?''"
    "py_strip '':TRIG:EDGE:SLOP?'' = '':TRIG:EDGE:SLOP?''"
    "py_strip '':TRIG:EDGE:SOUR?'' = '':TRIG:EDGE:SOUR?''"
    using py_strip_query [of "''TRIG:EDGE:LEV''"] py_strip_query [of "''TRIG:EDGE:SLOP''"]
      py_strip_query [of "''TRIG:EDGE:SOUR''"] by simp_all
  have a: "bindS (cmd I '':TRIG:EDGE:LEV?'' RET_LINE) as_line s1 =
      (Inr lev, s1\<lparr>sent := sent s1 @ [Ask '':TRIG:EDGE:LEV?'']\<rparr>)"
    using ask_line [of I s1 "'':TRIG:EDGE:LEV?''" lev] assms(1) by (simp add: st)
  have b: "bindS (cmd I '':TRIG:EDGE:SLOP?'' RET_LINE) as_line
        (s1\<lparr>sent := sent s1 @ [Ask '':TRIG:EDGE:LEV?'']\<rparr>) =
      (Inr slop, s1\<lparr>sent := sent s1 @ [Ask '':TRIG:EDGE:LEV?'', Ask '':TRIG:EDGE:SLOP?'']\<rparr>)"
    using ask_line [of I "s1\<lparr>sent := sent s1 @ [Ask '':TRIG:EDGE:LEV?'']\<rparr>"
        "'':TRIG:EDGE:SLOP?''" slop] assms(2) by (simp add: st)
  have c: "bindS (cmd I '':TRIG:EDGE:SOUR?'' RET_LINE) as_line
        (s1\<lparr>sent := sent s1 @ [Ask '':TRIG:EDGE:LEV?'', Ask '':TRIG:EDGE:SLOP?'']\<rparr>) =
      (Inr sour, s1\<lparr>sent := sent s1 @
         [Ask '':TRIG:EDGE:LEV?'', Ask '':TRIG:EDGE:SLOP?'', Ask '':TRIG:EDGE:SOUR?'']\<rparr>)"
    using ask_line [of I "s1\<lparr>sent := sent s1 @ [Ask '':TRIG:EDGE:LEV?'', Ask '':TRIG:EDGE:SLOP?'']\<rparr>"
        "'':TRIG:EDGE:SOUR?''" sour] assms(3) by (simp add: st)
  show ?thesis
    by (simp add: fetch_settings_def bind_ask_Inr [OF a] bind_ask_Inr [OF b] bind_ask_Inr [OF c] returnS_def)
qed

text \<open>
  Claim C7. When the first phase of trigger-settings capture (the eight queries of the
  top-level list, under the prefix \<open>TRIG\<close>) reports the sub-mode \<open>EDGE\<close> and the link
  answers the queries of the second phase, the second phase sends exactly the three
  queries \<open>:TRIG:EDGE:LEV?\<close>, \<open>:TRIG:EDGE:SLOP?\<close> and \<open>:TRIG:EDGE:SOUR?\<close>, in this
  order and nothing else, and the returned mapping is the top-level mapping with the
  mapping of \<open>LEV\<close>, \<open>SLOP\<close> and \<open>SOUR\<close> to their replies stored under the key \<open>EDGE\<close>;
  no warning is emitted.
\<close>

theorem edge_mode_dispatch:
  assumes "fetch_settings I ''TRIG'' trigger_settings_list s = (Inr top_level, s1)"
    and "top_level ''MODE'' = Some ''EDGE''"
    and "inst_ask I (sent s1) '':TRIG:EDGE:LEV?'' = Inr lev"
    and "inst_ask I (sent s1 @ [Ask '':TRIG:EDGE:LEV?'']) '':TRIG:EDGE:SLOP?'' = Inr slop"
    and "inst_ask I (sent s1 @ [Ask '':TRIG:EDGE:LEV?'', Ask '':TRIG:EDGE:SLOP?''])
            '':TRIG:EDGE:SOUR?'' = Inr sour"
  shows "fetch_trigger_settings I s =
     (Inr ((replies top_level)(''EDGE'' \<mapsto> Sub [''LEV'' \<mapsto> lev, ''SLOP'' \<mapsto> slop, ''SOUR'' \<mapsto> sour])),
      s1\<lparr>sent := sent s1 @
        [Ask '':TRIG:EDGE:LEV?'', Ask '':TRIG:EDGE:SLOP?'', Ask '':TRIG:EDGE:SOUR?'']\<rparr>) \<and>
     sent s1 = sent s @
        [Ask '':TRIG:STAT?'', Ask '':TRIG:COUP?'', Ask '':TRIG:HOLD?'', Ask '':TRIG:MODE?'',
         Ask '':TRIG:STAT?'', Ask '':TRIG:STAT?'', Ask '':TRIG:SWE?'', Ask '':TRIG:NREJ?''] \<and>
     warned s1 = warned s"
proof -
  have tbl: "getitem trigger_subfam_settings ''EDGE'' = Inr [''LEV'', ''SLOP'', ''SOUR'']"
    by (simp add: getitem_def trigger_subfam_settings_def)
  have "fetch_trigger_settings I s =
     (Inr ((replies top_level)(''EDGE'' \<mapsto> Sub [''LEV'' \<mapsto> lev, ''SLOP'' \<mapsto> slop, ''SOUR'' \<mapsto> sour])),
      s1\<lparr>sent := sent s1 @
        [Ask '':TRIG:EDGE:LEV?'', Ask '':TRIG:EDGE:SLOP?'', Ask '':TRIG:EDGE:SOUR?'']\<rparr>)"
    by (simp add: fetch_trigger_settings_def bindS_def assms(1) reply_item_def
        getitem_Some [of top_level "''MODE''", OF assms(2)] returnS_def tbl fetch_settings_edge [OF assms(3-5)])
  moreover from fetch_settings_sent [OF assms(1)]
  have "sent s1 = sent s @
        [Ask '':TRIG:STAT?'', Ask '':TRIG:COUP?'', Ask '':TRIG:HOLD?'', Ask '':TRIG:MODE?'',
         Ask '':TRIG:STAT?'', Ask '':TRIG:STAT?'', Ask '':TRIG:SWE?'', Ask '':TRIG:NREJ?'']"
    and "warned s1 = warned s"
    by (simp_all add: trigger_settings_list_def)
  ultimately show ?thesis by simp
qed
lemma bindS_pure_Inr: "bindS (Pair (Inr v)) f = f v"
  by (rule ext) (simp add: bindS_def)

lemma bindS_raiseS: "bindS (raiseS e) f = raiseS e"
  by (rule ext) (simp add: bindS_def raiseS_def)

lemma py_strip_examples:
  "py_strip '':WAV:PRE?'' = '':WAV:PRE?''"
  "py_strip '':WAV:SOUR CHAN1'' = '':WAV:SOUR CHAN1''"
  "py_strip '':TRIG:EDGE:LEV?'' = '':TRIG:EDGE:LEV?''"
  "py_strip '':TRIG:EDGE:SLOP?'' = '':TRIG:EDGE:SLOP?''"
  "py_strip '':TRIG:EDGE:SOUR?'' = '':TRIG:EDGE:SOUR?''"
  by (simp_all add: py_strip_def py_isspace_def)

lemma scripted_trigger_top_level:
  "fetch_settings (scripted l ''EDGE'' b) ''TRIG'' trigger_settings_list session0 =
     (Inr [''STAT'' \<mapsto> '':TRIG:STAT?'', ''COUP'' \<mapsto> '':TRIG:COUP?'', ''HOLD'' \<mapsto> '':TRIG:HOLD?'',
           ''MODE'' \<mapsto> ''EDGE'', ''STAT'' \<mapsto> '':TRIG:STAT?'', ''STAT'' \<mapsto> '':TRIG:STAT?'',
           ''SWE'' \<mapsto> '':TRIG:SWE?'', ''NREJ'' \<mapsto> '':TRIG:NREJ?''],
      \<lparr> sent = [Ask '':TRIG:STAT?'', Ask '':TRIG:COUP?'', Ask '':TRIG:HOLD?'', Ask '':TRIG:MODE?'',
                Ask '':TRIG:STAT?'', Ask '':TRIG:STAT?'', Ask '':TRIG:SWE?'', Ask '':TRIG:NREJ?''],
        warned = [] \<rparr>)"
  by (simp add: fetch_settings_def trigger_settings_list_def bindS_def cmd_def as_line_def
      returnS_def RET_LINE_def RET_NONE_def scripted_def session0_def py_strip_def py_isspace_def
      Let_def)

theorem edge_mode_dispatch_witness:
  "\<exists>r s'. fetch_trigger_settings (scripted ''0,0,1400,1,1,0,0,1,5,127'' ''EDGE'' []) session0 = (Inr r, s') \<and>
     r ''MODE'' = Some (Reply ''EDGE'') \<and>
     r ''EDGE'' = Some (Sub [''LEV'' \<mapsto> '':TRIG:EDGE:LEV?'', ''SLOP'' \<mapsto> '':TRIG:EDGE:SLOP?'',
                             ''SOUR'' \<mapsto> '':TRIG:EDGE:SOUR?'']) \<and>
     sent s' = [Ask '':TRIG:STAT?'', Ask '':TRIG:COUP?'', Ask '':TRIG:HOLD?'', Ask '':TRIG:MODE?'',
                Ask '':TRIG:STAT?'', Ask '':TRIG:STAT?'', Ask '':TRIG:SWE?'', Ask '':TRIG:NREJ?'',
                Ask '':TRIG:EDGE:LEV?'', Ask '':TRIG:EDGE:SLOP?'', Ask '':TRIG:EDGE:SOUR?''] \<and>
     warned s' = []"
proof -
  let ?I = "scripted ''0,0,1400,1,1,0,0,1,5,127'' ''EDGE'' []"
  have a: "inst_ask ?I h '':TRIG:EDGE:LEV?'' = Inr '':TRIG:EDGE:LEV?''"
    "inst_ask ?I h '':TRIG:EDGE:SLOP?'' = Inr '':TRIG:EDGE:SLOP?''"
    "inst_ask ?I h '':TRIG:EDGE:SOUR?'' = Inr '':TRIG:EDGE:SOUR?''" for h
    by (simp_all add: scripted_def)
  from edge_mode_dispatch [OF scripted_trigger_top_level _ a(1) a(2) a(3)]
  show ?thesis by (simp add: replies_def)
qed

section \<open>Properties of waveform fetching\<close>

text \<open>
  Claim C3 fails on the code, by a slip: the branch that should warn builds its message
  from the undefined name \<open>mode\<close>. Whenever the channel selection is accepted and the
  preamble that the instrument returns parses with a nonzero \<open>mode\<close>, \<open>fetch_waveform\<close>
  raises NameError right after the preamble query: no warning is emitted, no data block
  is fetched, and no Waveform is returned.
\<close>

theorem fetch_waveform_nonzero_mode_fails:
  assumes "inst_write I (sent s) (py_strip ('':WAV:SOUR '' @ channel)) = None"
    and "inst_ask I (sent s @ [Write (py_strip ('':WAV:SOUR '' @ channel))]) '':WAV:PRE?'' = Inr line"
    and "parse_preamble pyfloat line = Inr p"
    and "p ''mode'' = Some m" and "py_nonzero m"
  shows "fetch_waveform I pyfloat set_order channel tsa s =
     (Inl (NameError ''mode''),
      s\<lparr>sent := sent s @ [Write (py_strip ('':WAV:SOUR '' @ channel)), Ask '':WAV:PRE?'']\<rparr>)"
proof -
  define c where "c = py_strip ('':WAV:SOUR '' @ channel)"
  let ?s1 = "s\<lparr>sent := sent s @ [Write c]\<rparr>"
  have a: "set_channel I channel s = (Inr RNone, ?s1)"
    using assms(1) by (simp add: set_channel_def cmd_def RET_NONE_def c_def)
  have "bindS (cmd I '':WAV:PRE?'' RET_LINE) as_line ?s1 =
      (Inr line, ?s1\<lparr>sent := sent ?s1 @ [Ask '':WAV:PRE?'']\<rparr>)"
    using ask_line [of I ?s1 "'':WAV:PRE?''" line] assms(2)
    by (simp add: py_strip_examples c_def)
  then have b: "fetch_preamble I pyfloat ?s1 = (Inr p, s\<lparr>sent := sent s @ [Write c, Ask '':WAV:PRE?'']\<rparr>)"
    by (simp add: fetch_preamble_def bind_ask_Inr assms(3))
  have "fetch_waveform I pyfloat set_order channel tsa s =
      (Inl (NameError ''mode''), s\<lparr>sent := sent s @ [Write c, Ask '':WAV:PRE?'']\<rparr>)"
    using assms(5)
    by (simp add: fetch_waveform_def bindS_Inr [of "set_channel I channel", OF a]
        bindS_Inr [of "fetch_preamble I pyfloat", OF b] getitem_Some [of p "''mode''", OF assms(4)]
        bindS_pure_Inr bindS_raiseS raiseS_def)
  then show ?thesis by (simp add: c_def)
qed

theorem fetch_waveform_nonzero_mode_fails_witness:
  "parse_preamble digits_float ''0,1,1400,1,1,0,0,1,5,127'' =
     Inr [''format'' \<mapsto> PFloat 0, ''mode'' \<mapsto> PFloat 1, ''n_points'' \<mapsto> PFloat 1400,
          ''n_avgs'' \<mapsto> PFloat 1, ''x_step'' \<mapsto> PFloat 1, ''x_origin'' \<mapsto> PFloat 0,
          ''x_reference'' \<mapsto> PFloat 0, ''y_step'' \<mapsto> PFloat 1, ''y_origin'' \<mapsto> PFloat 5,
          ''y_reference'' \<mapsto> PFloat 127] \<and>
   fetch_waveform (scripted ''0,1,1400,1,1,0,0,1,5,127'' ''EDGE'' example_block) digits_float id
       ''CHAN1'' None session0 =
     (Inl (NameError ''mode''), \<lparr> sent = [Write '':WAV:SOUR CHAN1'', Ask '':WAV:PRE?''], warned = [] \<rparr>)"
proof -
  let ?I = "scripted ''0,1,1400,1,1,0,0,1,5,127'' ''EDGE'' example_block"
  let ?p = "[''format'' \<mapsto> PFloat 0, ''mode'' \<mapsto> PFloat 1, ''n_points'' \<mapsto> PFloat 1400,
          ''n_avgs'' \<mapsto> PFloat 1, ''x_step'' \<mapsto> PFloat 1, ''x_origin'' \<mapsto> PFloat 0,
          ''x_reference'' \<mapsto> PFloat 0, ''y_step'' \<mapsto> PFloat 1, ''y_origin'' \<mapsto> PFloat 5,
          ''y_reference'' \<mapsto> PFloat 127]"
  have p: "parse_preamble digits_float ''0,1,1400,1,1,0,0,1,5,127'' = Inr ?p"
    by (auto simp: parse_preamble_def split_example unpack_floats_ok digits_float_simps
        bindE_simps preamble_keys_def fun_eq_iff)
  have w: "inst_write ?I (sent session0) (py_strip ('':WAV:SOUR '' @ ''CHAN1'')) = None"
    by (simp add: scripted_def)
  have a: "inst_ask ?I (sent session0 @ [Write (py_strip ('':WAV:SOUR '' @ ''CHAN1''))]) '':WAV:PRE?''
      = Inr ''0,1,1400,1,1,0,0,1,5,127''"
    by (simp add: scripted_def)
  have m: "?p ''mode'' = Some (PFloat 1)" by simp
  have nz: "py_nonzero (PFloat 1)" by (simp add: py_nonzero_def)
  from fetch_waveform_nonzero_mode_fails [OF w a p m nz, of id None] p
  show ?thesis by (simp add: session0_def py_strip_examples)
qed

section \<open>Properties of serialization\<close>

subsection \<open>The base64 codec decodes what it encoded\<close>

lemma byte_masks: "(63::byte) = mask 6" "(15::byte) = mask 4" "(3::byte) = mask 2"
  by (simp_all add: mask_eq_exp_minus_1)

lemma shift_back: "2 \<le> n \<Longrightarrow> Suc (Suc (n - 2)) = n" "4 \<le> n \<Longrightarrow> 4 + (n - 4) = n"
  "6 \<le> n \<Longrightarrow> 6 + (n - 6) = n"
  by simp_all

lemma sextet_1: "push_bit 2 (drop_bit 2 a AND 63) OR drop_bit 4 ((push_bit 4 (a AND 3) OR drop_bit 4 b) AND 63) = a"
  for a b :: byte
  unfolding byte_masks
proof (rule bit_word_eqI)
  fix n assume "n < LENGTH(8)"
  then show "bit (push_bit 2 (drop_bit 2 a AND mask 6) OR
      drop_bit 4 ((push_bit 4 (a AND mask 2) OR drop_bit 4 b) AND mask 6)) n = bit a n"
    by (cases "2 \<le> n") (auto simp add: bit_simps shift_back)
qed

lemma sextet_2: "push_bit 4 (((push_bit 4 (a AND 3) OR drop_bit 4 b) AND 63) AND 15) OR
    drop_bit 2 ((push_bit 2 (b AND 15) OR drop_bit 6 c) AND 63) = b"
  for a b c :: byte
  unfolding byte_masks
proof (rule bit_word_eqI)
  fix n assume "n < LENGTH(8)"
  then show "bit (push_bit 4 (((push_bit 4 (a AND mask 2) OR drop_bit 4 b) AND mask 6) AND mask 4) OR
    drop_bit 2 ((push_bit 2 (b AND mask 4) OR drop_bit 6 c) AND mask 6)) n = bit b n"
    by (cases "4 \<le> n") (auto simp add: bit_simps shift_back)
qed

lemma sextet_3: "push_bit 6 (((push_bit 2 (b AND 15) OR drop_bit 6 c) AND 63) AND 3) OR ((c AND 63) AND 63) = c"
  for b c :: byte
  unfolding byte_masks
proof (rule bit_word_eqI)
  fix n assume "n < LENGTH(8)"
  then show "bit (push_bit 6 (((push_bit 2 (b AND mask 4) OR drop_bit 6 c) AND mask 6) AND mask 2) OR
     ((c AND mask 6) AND mask 6)) n = bit c n"
    by (cases "6 \<le> n") (auto simp add: bit_simps shift_back)
qed
lemma index_of_nth:
  "distinct xs \<Longrightarrow> i < length xs \<Longrightarrow> index_of (xs ! i) xs k = Some (k + i)"
proof (induction xs arbitrary: i k)
  case Nil
  then show ?case by simp
next
  case (Cons x xs)
  show ?case
  proof (cases i)
    case 0
    then show ?thesis by simp
  next
    case (Suc j)
    with Cons.prems have "xs ! j \<noteq> x" "distinct xs" "j < length xs"
      by auto
    with Cons.IH [of j "Suc k"] Suc show ?thesis by simp
  qed
qed

lemma table_b2a_distinct: "distinct table_b2a_base64"
  by (simp add: table_b2a_base64_def)

lemma table_b2a_length: "length table_b2a_base64 = 64"
  by (simp add: table_b2a_base64_def)

lemma table_b2a_no_pad: "CHR ''='' \<notin> set table_b2a_base64"
  by (simp add: table_b2a_base64_def)

lemma table_b2a_ascii: "\<forall>c\<in>set table_b2a_base64. (of_char c :: nat) < 128"
  by (simp add: table_b2a_base64_def)

lemma unat_and_63: "unat (v AND 63) < 64" for v :: byte
proof -
  have "unat (v AND 63) \<le> unat (63 :: byte)"
    by (rule word_and_le1 [THEN word_le_nat_alt [THEN iffD1]])
  then show ?thesis by simp
qed

lemma b2a_in_table: "b2a v \<in> set table_b2a_base64"
  by (simp add: b2a_def table_b2a_length unat_and_63)

lemma b2a_not_pad: "b2a v \<noteq> CHR ''=''"
  using b2a_in_table [of v] table_b2a_no_pad by auto

lemma b2a_ascii: "\<not> 128 \<le> (of_char (b2a v) :: nat)"
  using b2a_in_table [of v] table_b2a_ascii by (auto simp: not_le)

lemma a2b_b2a: "table_a2b_base64 (b2a v) = Some (v AND 63)"
proof -
  have "index_of (table_b2a_base64 ! unat (v AND 63)) table_b2a_base64 0 = Some (0 + unat (v AND 63))"
    by (rule index_of_nth) (simp_all add: table_b2a_distinct table_b2a_length unat_and_63)
  then show ?thesis by (simp add: table_a2b_base64_def b2a_def)
qed

lemma sextet_1_last: "push_bit 2 (drop_bit 2 a AND 63) OR drop_bit 4 (push_bit 4 (a AND 3) AND 63) = a"
  for a :: byte
  unfolding byte_masks
proof (rule bit_word_eqI)
  fix n assume "n < LENGTH(8)"
  then show "bit (push_bit 2 (drop_bit 2 a AND mask 6) OR
      drop_bit 4 (push_bit 4 (a AND mask 2) AND mask 6)) n = bit a n"
    by (cases "2 \<le> n") (auto simp add: bit_simps shift_back)
qed

lemma sextet_2_last: "push_bit 4 (((push_bit 4 (a AND 3) OR drop_bit 4 b) AND 63) AND 15) OR
    drop_bit 2 (push_bit 2 (b AND 15) AND 63) = b"
  for a b :: byte
  unfolding byte_masks
proof (rule bit_word_eqI)
  fix n assume "n < LENGTH(8)"
  then show "bit (push_bit 4 (((push_bit 4 (a AND mask 2) OR drop_bit 4 b) AND mask 6) AND mask 4) OR
    drop_bit 2 (push_bit 2 (b AND mask 4) AND mask 6)) n = bit b n"
    by (cases "4 \<le> n") (auto simp add: bit_simps shift_back)
qed

lemma a2b_quad:
  "a2b_base64 (b2a s0 # b2a s1 # b2a s2 # b2a s3 # cs) 0 0 0 out =
   a2b_base64 cs 0 0 0
     (out @ [push_bit 2 (s0 AND 63) OR drop_bit 4 (s1 AND 63),
             push_bit 4 ((s1 AND 63) AND 15) OR drop_bit 2 (s2 AND 63),
             push_bit 6 ((s2 AND 63) AND 3) OR (s3 AND 63)])"
  by (simp add: a2b_b2a b2a_not_pad)

lemma a2b_pad1:
  "a2b_base64 [b2a s0, b2a s1, b2a s2, CHR ''=''] 0 0 0 out =
   Inr (out @ [push_bit 2 (s0 AND 63) OR drop_bit 4 (s1 AND 63),
               push_bit 4 ((s1 AND 63) AND 15) OR drop_bit 2 (s2 AND 63)])"
  by (simp add: a2b_b2a b2a_not_pad)

lemma a2b_pad2:
  "a2b_base64 [b2a s0, b2a s1, CHR ''='', CHR ''=''] 0 0 0 out =
   Inr (out @ [push_bit 2 (s0 AND 63) OR drop_bit 4 (s1 AND 63)])"
  by (simp add: a2b_b2a b2a_not_pad)

lemma a2b_base64_b64encode: "a2b_base64 (b64encode bs) 0 0 0 out = Inr (out @ bs)"
proof (induction bs arbitrary: out rule: b64encode.induct)
  case 1
  show ?case by simp
next
  case (2 a)
  show ?case unfolding b64encode.simps a2b_pad2 sextet_1_last by simp
next
  case (3 a b)
  show ?case unfolding b64encode.simps a2b_pad1 sextet_1 sextet_2_last by simp
next
  case (4 a b c rest)
  show ?case unfolding b64encode.simps a2b_quad sextet_1 sextet_2 sextet_3 "4.IH" by simp
qed

lemma b64encode_ascii: "\<not> list_ex (\<lambda>c. (of_char c :: nat) \<ge> 128) (b64encode bs)"
  by (induction bs rule: b64encode.induct) (simp_all add: b2a_ascii)

lemma b64decode_b64encode: "b64decode (b64encode bs) = Inr bs"
  using a2b_base64_b64encode [of bs "[]"] by (simp add: b64decode_def b64encode_ascii)

subsection \<open>Round trip and schema version\<close>

lemma b64encode_example_block: "b64encode example_block = ''IzkwMDAwMDAwMDJ4ggo=''"
  by (simp add: example_block_def b2a_def table_b2a_base64_def)

lemma from_json_dict_json_dict:
  "Waveform_from_json_dict (Waveform_json_dict w) =
     Waveform_init (preamble w) (rawbuf w) (channel_settings w) (idn_line w)
       (trigger_settings w) (version w)"
  by (simp add: Waveform_from_json_dict_def Waveform_json_dict_def b64decode_b64encode bindE_simps)

lemma example_waveform:
  "Waveform_init example_preamble example_block Map.empty ''RIGOL'' Map.empty v =
     Inr \<lparr> version = v, preamble = example_preamble, rawbuf = example_block,
           channel_settings = Map.empty, idn_line = ''RIGOL'', trigger_settings = Map.empty,
           readings = [120, 130], Fs = 1000000,
           wf_t = F64 [- 7 / 10000, - 7 / 10000 + 1 / 1000000],
           wf_y = F64 [- 8 / 100, 32 / 100] \<rparr>"
  by (simp add: Waveform_init_float [OF example_preamble_simps(1) _ example_preamble_simps(2) _
        example_preamble_simps(3,4,5,6)]
      py_nonzero_def example_block_def py_slice_def slice_index_def upt_rec)

text \<open>
  Claim C1. For every Waveform \<open>w\<close> that the constructor returns, when \<open>json.loads\<close>
  gives back the dictionary that \<open>json.dumps\<close> was given, deserializing the
  serialization of \<open>w\<close> succeeds and yields \<open>w\<close> itself: the version, the identity
  string, the channel settings, the trigger settings, the preamble and the raw block are
  those of \<open>w\<close>, and the sample, time and voltage series and the sample rate, derived
  again from the preamble and the decoded block, are equal to those of \<open>w\<close>.
\<close>

theorem waveform_json_round_trip:
  assumes "Waveform_init p buf cs ident ts v = Inr w"
    and "loads (dumps (Waveform_json_dict w)) = Inr (Waveform_json_dict w)"
  shows "from_jsons loads (to_jsons dumps w) = Inr w"
proof -
  from Waveform_init_fields [OF assms(1)]
  have "Waveform_from_json_dict (Waveform_json_dict w) = Waveform_init p buf cs ident ts v"
    by (simp add: from_json_dict_json_dict)
  with assms show ?thesis
    by (simp add: from_jsons_def to_jsons_def bindE_simps)
qed

theorem waveform_json_round_trip_witness:
  "\<exists>w. Waveform_init example_preamble example_block Map.empty ''RIGOL'' Map.empty 1 = Inr w \<and>
     d_buf_b64 (to_jsons id w) = Some ''IzkwMDAwMDAwMDJ4ggo='' \<and>
     from_jsons Inr (to_jsons id w) = Inr w \<and> readings w = [120, 130]"
proof -
  let ?w = "\<lparr> version = 1, preamble = example_preamble, rawbuf = example_block,
           channel_settings = Map.empty, idn_line = ''RIGOL'', trigger_settings = Map.empty,
           readings = [120, 130], Fs = 1000000,
           wf_t = F64 [- 7 / 10000, - 7 / 10000 + 1 / 1000000],
           wf_y = F64 [- 8 / 100, 32 / 100] \<rparr>"
  have l: "Inr (id (Waveform_json_dict ?w)) = (Inr (Waveform_json_dict ?w) :: exn + wf_doc)"
    by simp
  from waveform_json_round_trip [of example_preamble example_block Map.empty "''RIGOL''" Map.empty 1 ?w
      Inr id, OF example_waveform l]
  show ?thesis
    by (intro exI [of _ ?w])
       (simp add: example_waveform to_jsons_def Waveform_json_dict_def b64encode_example_block)
qed

lemma Waveform_init_version:
  "Waveform_init p buf cs ident ts v =
     (case Waveform_init p buf cs ident ts v' of Inl e \<Rightarrow> Inl e | Inr w \<Rightarrow> Inr (w\<lparr>version := v\<rparr>))"
  by (auto simp: Waveform_init_def getitem_def bindE_def Let_def
      split: option.splits sum.splits)

lemma Waveform_from_json_dict_version:
  "Waveform_from_json_dict (d\<lparr>d_version := Some v\<rparr>) =
     (case Waveform_from_json_dict d of Inl e \<Rightarrow> Inl e | Inr w \<Rightarrow> Inr (w\<lparr>version := v\<rparr>))"
proof (cases "case d_buf_b64 d of None \<Rightarrow> Inl (KeyError ''buf_b64'') | Some s \<Rightarrow> b64decode s")
  case (Inl e)
  then show ?thesis by (simp add: Waveform_from_json_dict_def bindE_simps)
next
  case (Inr buf)
  show ?thesis
    using Waveform_init_version [of _ buf _ _ _ v]
    by (simp add: Waveform_from_json_dict_def Inr bindE_simps split: option.splits)
qed

lemma WaveformBundle_from_json_dict_version:
  "WaveformBundle_from_json_dict (b\<lparr>bd_version := Some v\<rparr>) =
     (case WaveformBundle_from_json_dict b of Inl e \<Rightarrow> Inl e
      | Inr x \<Rightarrow> Inr (x\<lparr>bundle_version := v\<rparr>))"
  by (simp add: WaveformBundle_from_json_dict_def WaveformBundle_init_def bindE_def
      split: option.splits sum.splits)

text \<open>
  Claim C4, as stated, fails: no version value is checked. The Waveform document of the
  example with version 2, and a bundle document with version 2, both decode, and the
  objects carry the version 2.
\<close>

theorem unknown_version_accepted_counterexample:
  "(\<exists>w. from_jsons Inr
       \<lparr> d_version = Some 2, d_idn_line = Some ''RIGOL'', d_channel_settings = Some Map.empty,
         d_trigger_settings = Some Map.empty, d_preamble = Some example_preamble,
         d_buf_b64 = Some ''IzkwMDAwMDAwMDJ4ggo='', d_other = [] \<rparr> = Inr w \<and>
       version w = 2 \<and> readings w = [120, 130]) \<and>
   bundle_from_jsons Inr
     \<lparr> bd_version = Some 2, bd_title = Some ''capture'', bd_channel_names = Some Map.empty,
       bd_waveforms = Some [], bd_other = [] \<rparr> =
     Inr \<lparr> bundle_version = 2, channel_names = Map.empty, waveforms = [], title = ''capture'' \<rparr>"
proof -
  have "b64decode ''IzkwMDAwMDAwMDJ4ggo='' = Inr example_block"
    using b64decode_b64encode [of example_block] by (simp only: b64encode_example_block)
  then show ?thesis
    by (simp add: from_jsons_def bundle_from_jsons_def Waveform_from_json_dict_def
        WaveformBundle_from_json_dict_def WaveformBundle_init_def bindE_simps example_waveform)
qed

text \<open>
  Claim C4, amended. Deserialization never inspects the version value. When two texts
  are parsed to documents that differ in their top-level version only, the second with
  the version \<open>v\<close>, the second is rejected exactly when the first is, with the same
  error, and otherwise yields the object of the first with \<open>v\<close> stored as its version;
  this holds for \<open>Waveform.from_jsons\<close> and for \<open>WaveformBundle.from_jsons\<close>, and for
  every \<open>v\<close>, recognized revision or not.
\<close>

theorem version_not_validated:
  "(loads s = Inr d \<and> loads s' = Inr (d\<lparr>d_version := Some v\<rparr>) \<longrightarrow>
      from_jsons loads s' =
        (case from_jsons loads s of Inl e \<Rightarrow> Inl e | Inr w \<Rightarrow> Inr (w\<lparr>version := v\<rparr>))) \<and>
   (bloads t = Inr b \<and> bloads t' = Inr (b\<lparr>bd_version := Some v\<rparr>) \<longrightarrow>
      bundle_from_jsons bloads t' =
        (case bundle_from_jsons bloads t of Inl e \<Rightarrow> Inl e
         | Inr x \<Rightarrow> Inr (x\<lparr>bundle_version := v\<rparr>)))"
  by (simp add: from_jsons_def bundle_from_jsons_def bindE_simps
      Waveform_from_json_dict_version WaveformBundle_from_json_dict_version)

theorem version_not_validated_witness:
  "from_jsons Inr
       \<lparr> d_version = Some 2, d_idn_line = Some ''RIGOL'', d_channel_settings = Some Map.empty,
         d_trigger_settings = Some Map.empty, d_preamble = Some example_preamble,
         d_buf_b64 = Some ''IzkwMDAwMDAwMDJ4ggo='', d_other = [] \<rparr> =
     (case from_jsons Inr
       \<lparr> d_version = Some 1, d_idn_line = Some ''RIGOL'', d_channel_settings = Some Map.empty,
         d_trigger_settings = Some Map.empty, d_preamble = Some example_preamble,
         d_buf_b64 = Some ''IzkwMDAwMDAwMDJ4ggo='', d_other = [] \<rparr>
      of Inl e \<Rightarrow> Inl e | Inr w \<Rightarrow> Inr (w\<lparr>version := 2\<rparr>)) \<and>
   bundle_from_jsons Inr
     \<lparr> bd_version = Some 2, bd_title = Some ''capture'', bd_channel_names = Some Map.empty,
       bd_waveforms = Some [], bd_other = [] \<rparr> =
     (case bundle_from_jsons Inr
       \<lparr> bd_version = Some 1, bd_title = Some ''capture'', bd_channel_names = Some Map.empty,
         bd_waveforms = Some [], bd_other = [] \<rparr>
      of Inl e \<Rightarrow> Inl e | Inr x \<Rightarrow> Inr (x\<lparr>bundle_version := 2\<rparr>))"
  using version_not_validated [of Inr
      "\<lparr> d_version = Some 1, d_idn_line = Some ''RIGOL'', d_channel_settings = Some Map.empty,
         d_trigger_settings = Some Map.empty, d_preamble = Some example_preamble,
         d_buf_b64 = Some ''IzkwMDAwMDAwMDJ4ggo='', d_other = [] \<rparr>"
      "\<lparr> d_version = Some 1, d_idn_line = Some ''RIGOL'', d_channel_settings = Some Map.empty,
         d_trigger_settings = Some Map.empty, d_preamble = Some example_preamble,
         d_buf_b64 = Some ''IzkwMDAwMDAwMDJ4ggo='', d_other = [] \<rparr>"
      "\<lparr> d_version = Some 2, d_idn_line = Some ''RIGOL'', d_channel_settings = Some Map.empty,
         d_trigger_settings = Some Map.empty, d_preamble = Some example_preamble,
         d_buf_b64 = Some ''IzkwMDAwMDAwMDJ4ggo='', d_other = [] \<rparr>"
      2 Inr
      "\<lparr> bd_version = Some 1, bd_title = Some ''capture'', bd_channel_names = Some Map.empty,
         bd_waveforms = Some [], bd_other = [] \<rparr>"
      "\<lparr> bd_version = Some 1, bd_title = Some ''capture'', bd_channel_names = Some Map.empty,
         bd_waveforms = Some [], bd_other = [] \<rparr>"
      "\<lparr> bd_version = Some 2, bd_title = Some ''capture'', bd_channel_names = Some Map.empty,
         bd_waveforms = Some [], bd_other = [] \<rparr>"]
  by simp

end
